theory Spec2Isabelle
  imports Main
begin

section \<open>Values of the event payload\<close>

text \<open>
  The payload and the configuration are the results of \<^verbatim>\<open>JSON.parse\<close>. A JavaScript value
  read from them is a JSON value or \<^verbatim>\<open>undefined\<close> (\<open>None\<close>). A number is held as the text
  that \<^verbatim>\<open>String(n)\<close> gives for it (\<^verbatim>\<open>42\<close>, \<^verbatim>\<open>0.5\<close>, \<^verbatim>\<open>1e+21\<close>, and \<^verbatim>\<open>0\<close> for both
  zeros): the script tests a number for zero, prints it and looks it up in an array, and each
  of the three is a function of that text. An object is its list of members in the order of
  the text, where a later duplicate key wins, as \<^verbatim>\<open>JSON.parse\<close> has it.
\<close>

datatype json =
    JNull
  | JBool bool
  | JNum string
  | JStr string
  | JArr "json list"
  | JObj "(string \<times> json) list"

type_synonym jsval = "json option"

text \<open>\<^verbatim>\<open>!v\<close> is true of \<^verbatim>\<open>undefined\<close>, \<^verbatim>\<open>null\<close>, \<^verbatim>\<open>false\<close>, \<^verbatim>\<open>0\<close> and the empty string.\<close>

fun truthy :: "jsval \<Rightarrow> bool" where
  "truthy None = False"
| "truthy (Some JNull) = False"
| "truthy (Some (JBool b)) = b"
| "truthy (Some (JNum n)) = (n \<noteq> ''0'')"
| "truthy (Some (JStr s)) = (s \<noteq> [])"
| "truthy (Some (JArr xs)) = True"
| "truthy (Some (JObj kvs)) = True"

text \<open>
  \<^verbatim>\<open>v.k\<close> for the keys the script reads (none of them is a property of a string, a number,
  a boolean or an array): the member of an object, \<^verbatim>\<open>undefined\<close> on every other value that
  has properties.
\<close>

fun own_prop :: "json \<Rightarrow> string \<Rightarrow> jsval" where
  "own_prop (JObj kvs) k = map_of (rev kvs) k"
| "own_prop v k = None"

text \<open>Reading a property of \<^verbatim>\<open>undefined\<close> or \<^verbatim>\<open>null\<close> throws a TypeError.\<close>

definition type_error :: "string \<Rightarrow> string" where
  "type_error k = ''TypeError: Cannot read properties of undefined or null (reading '' @ k @ '')''"

fun get_prop :: "jsval \<Rightarrow> string \<Rightarrow> string + jsval" where
  "get_prop None k = Inl (type_error k)"
| "get_prop (Some JNull) k = Inl (type_error k)"
| "get_prop (Some v) k = Inr (own_prop v k)"

subsection \<open>Strings\<close>

text \<open>
  The decimal digits of a natural number. The script prints two numbers of its own, the
  length of an array and the time of \<^verbatim>\<open>Date.now()\<close>; both are integers far below
  \<^verbatim>\<open>1e21\<close>, which \<^verbatim>\<open>String(n)\<close> prints digit by digit.
\<close>

definition digit_char :: "nat \<Rightarrow> char" where
  "digit_char n = ''0123456789'' ! (n mod 10)"

function show_nat :: "nat \<Rightarrow> string" where
  "show_nat n = (if n < 10 then [digit_char n] else show_nat (n div 10) @ [digit_char (n mod 10)])"
  by pat_completeness auto
termination
  by (relation "measure id") auto

text \<open>The strings of a list joined by a separator.\<close>

fun intercalate :: "string \<Rightarrow> string list \<Rightarrow> string" where
  "intercalate sep [] = []"
| "intercalate sep [x] = x"
| "intercalate sep (x # y # ys) = x @ sep @ intercalate sep (y # ys)"

text \<open>
  The conversion of a value to a string, which a template literal \<^verbatim>\<open>`${v}`\<close> applies to
  each value it embeds. It can throw. An object of the payload has no callable member, so
  an own member named \<^verbatim>\<open>toString\<close> hides \<^verbatim>\<open>Object.prototype.toString\<close>, no
  \<^verbatim>\<open>valueOf\<close> gives a primitive value in its place, and the conversion throws a
  TypeError; every other object prints as \<^verbatim>\<open>[object Object]\<close>. An array prints its
  elements joined by commas, \<^verbatim>\<open>null\<close> elements as the empty string, and throws when the
  conversion of an element throws.
\<close>

definition cannot_convert :: string where
  "cannot_convert = ''TypeError: Cannot convert object to primitive value''"

fun join_texts :: "(string + string) list \<Rightarrow> string + string" where
  "join_texts [] = Inr []"
| "join_texts [x] = x"
| "join_texts (x # y # ys) =
     (case x of
        Inl e \<Rightarrow> Inl e
      | Inr s \<Rightarrow> (case join_texts (y # ys) of Inl e \<Rightarrow> Inl e | Inr r \<Rightarrow> Inr (s @ '','' @ r)))"

fun js_string :: "json \<Rightarrow> string + string" where
  "js_string JNull = Inr ''null''"
| "js_string (JBool b) = Inr (if b then ''true'' else ''false'')"
| "js_string (JNum n) = Inr n"
| "js_string (JStr s) = Inr s"
| "js_string (JArr xs) =
     join_texts (map (\<lambda>x. if x = JNull then Inr [] else js_string x) xs)"
| "js_string (JObj kvs) =
     (if list_ex (\<lambda>kv. fst kv = ''toString'') kvs then Inl cannot_convert
      else Inr ''[object Object]'')"

definition tpl :: "jsval \<Rightarrow> string + string" where
  "tpl v = (case v of None \<Rightarrow> Inr ''undefined'' | Some j \<Rightarrow> js_string j)"

text \<open>
  A template literal is its parts from left to right: literal text (or an embedded value
  that is a string already) and embedded values, which are converted in that order; the
  first conversion that throws ends the evaluation.
\<close>

datatype part = Lit string | Sub jsval

fun template :: "part list \<Rightarrow> string + string" where
  "template [] = Inr []"
| "template (Lit s # ps) = (case template ps of Inl e \<Rightarrow> Inl e | Inr r \<Rightarrow> Inr (s @ r))"
| "template (Sub v # ps) =
     (case tpl v of
        Inl e \<Rightarrow> Inl e
      | Inr s \<Rightarrow> (case template ps of Inl e \<Rightarrow> Inl e | Inr r \<Rightarrow> Inr (s @ r)))"

text \<open>\<^verbatim>\<open>s.includes(sub)\<close> and \<^verbatim>\<open>s.endsWith(suf)\<close> on strings.\<close>

definition starts_with :: "string \<Rightarrow> string \<Rightarrow> bool" where
  "starts_with s p = (take (length p) s = p)"

fun str_includes :: "string \<Rightarrow> string \<Rightarrow> bool" where
  "str_includes [] sub = (sub = [])"
| "str_includes (c # cs) sub = (starts_with (c # cs) sub \<or> str_includes cs sub)"

definition endsWith :: "string \<Rightarrow> string \<Rightarrow> bool" where
  "endsWith s suf = starts_with (rev s) (rev suf)"

text \<open>
  \<^verbatim>\<open>array.includes(v)\<close> compares with SameValueZero: primitives by value; an object or an
  array only with itself, and no member of the parsed configuration is the same object as a
  member of the parsed payload.
\<close>

fun same_value_zero :: "jsval \<Rightarrow> json \<Rightarrow> bool" where
  "same_value_zero (Some JNull) JNull = True"
| "same_value_zero (Some (JBool a)) (JBool b) = (a = b)"
| "same_value_zero (Some (JNum a)) (JNum b) = (a = b)"
| "same_value_zero (Some (JStr a)) (JStr b) = (a = b)"
| "same_value_zero v x = False"

definition array_includes :: "json list \<Rightarrow> jsval \<Rightarrow> bool" where
  "array_includes xs v = list_ex (same_value_zero v) xs"

section \<open>POSIX paths\<close>

text \<open>The functions of Node's \<^verbatim>\<open>path\<close> module that the script calls, on POSIX.\<close>

fun split_slash :: "string \<Rightarrow> string list" where
  "split_slash [] = [[]]"
| "split_slash (c # cs) =
     (if c = CHR ''/'' then [] # split_slash cs
      else (case split_slash cs of [] \<Rightarrow> [[c]] | s # ss \<Rightarrow> (c # s) # ss))"

text \<open>
  The segments of a normalised path, the stack of kept segments reversed in \<open>acc\<close>: empty
  segments and \<^verbatim>\<open>.\<close> are dropped, \<^verbatim>\<open>..\<close> removes the segment before it, and is kept
  at the front of a relative path (\<open>up\<close>) only.
\<close>

fun normalize_segs :: "bool \<Rightarrow> string list \<Rightarrow> string list \<Rightarrow> string list" where
  "normalize_segs up acc [] = rev acc"
| "normalize_segs up acc (s # ss) =
     (if s = [] \<or> s = ''.'' then normalize_segs up acc ss
      else if s = ''..'' then
        (case acc of
           [] \<Rightarrow> normalize_segs up (if up then [''..''] else []) ss
         | t # ts \<Rightarrow>
             if t = ''..'' then normalize_segs up (if up then ''..'' # acc else acc) ss
             else normalize_segs up ts ss)
      else normalize_segs up (s # acc) ss)"

definition is_absolute :: "string \<Rightarrow> bool" where
  "is_absolute p = (p \<noteq> [] \<and> hd p = CHR ''/'')"

definition path_normalize :: "string \<Rightarrow> string" where
  "path_normalize p =
     (if p = [] then ''.''
      else
        let ab = is_absolute p;
            trailing = (last p = CHR ''/'');
            body = intercalate ''/'' (normalize_segs (\<not> ab) [] (split_slash p))
        in if body = [] then (if ab then ''/'' else if trailing then ''./'' else ''.'')
           else (if ab then ''/'' else []) @ body @ (if trailing then ''/'' else []))"

definition path_join :: "string list \<Rightarrow> string" where
  "path_join args =
     (let parts = filter (\<lambda>a. a \<noteq> []) args
      in if parts = [] then ''.'' else path_normalize (intercalate ''/'' parts))"

text \<open>\<^verbatim>\<open>path.resolve(p)\<close> against the working directory \<open>cwd\<close> (an absolute path).\<close>

definition path_resolve :: "string \<Rightarrow> string \<Rightarrow> string" where
  "path_resolve cwd p =
     (let full = (if is_absolute p then p else cwd @ ''/'' @ p)
      in CHR ''/'' # intercalate ''/'' (normalize_segs False [] (split_slash full)))"

fun strip_common :: "string list \<Rightarrow> string list \<Rightarrow> string list \<times> string list" where
  "strip_common (a # as) (b # bs) = (if a = b then strip_common as bs else (a # as, b # bs))"
| "strip_common as bs = (as, bs)"

text \<open>
  \<^verbatim>\<open>path.relative(from, to)\<close>: both are resolved against the working directory first; the
  result climbs out of what is left of \<open>from\<close> and descends what is left of \<open>to\<close>.
\<close>

definition path_relative :: "string \<Rightarrow> string \<Rightarrow> string \<Rightarrow> string" where
  "path_relative cwd from to =
     (if from = to then []
      else
        let f = normalize_segs False [] (split_slash (path_resolve cwd from));
            t = normalize_segs False [] (split_slash (path_resolve cwd to))
        in case strip_common f t of
             (fr, tr) \<Rightarrow> intercalate ''/'' (map (\<lambda>_. ''..'') fr @ tr))"

text \<open>
  \<^verbatim>\<open>path.dirname(p)\<close>: trailing slashes are ignored, the last segment is cut at the slash
  before it (a slash at index 0 is the root and is never the cut).
\<close>

definition path_dirname :: "string \<Rightarrow> string" where
  "path_dirname p =
     (if p = [] then ''.''
      else
        let hasRoot = (hd p = CHR ''/'');
            r = dropWhile (\<lambda>c. c \<noteq> CHR ''/'') (dropWhile (\<lambda>c. c = CHR ''/'') (rev (tl p)))
        in if r = [] then (if hasRoot then ''/'' else ''.'')
           else if hasRoot \<and> tl r = [] then ''//''
           else hd p # rev (tl r))"

section \<open>The collaborators: file system, shell, clock\<close>

text \<open>
  What a directory entry is to \<^verbatim>\<open>readdirSync(dir, { withFileTypes: true })\<close>: a regular
  file, a directory with its entries in the order they are listed, a directory that cannot be
  listed, or anything else (a symbolic link, a socket), which is neither \<^verbatim>\<open>isFile()\<close> nor
  \<^verbatim>\<open>isDirectory()\<close>.
\<close>

datatype node = File | Dir "(string \<times> node) list" | Unreadable | Other

fun isDirectory :: "node \<Rightarrow> bool" where
  "isDirectory (Dir items) = True"
| "isDirectory Unreadable = True"
| "isDirectory n = False"

fun isFile :: "node \<Rightarrow> bool" where
  "isFile File = True"
| "isFile n = False"

text \<open>
  The outside world is a state \<open>'w\<close> behind one interface. Every path handed to it is already
  resolved against the working directory of the process. \<open>execSync\<close> runs a shell command in
  a directory and says how it ended. The calls of \<^verbatim>\<open>fs\<close> and \<^verbatim>\<open>process.chdir\<close> give
  \<open>None\<close> on success and the message of the error they throw otherwise. \<open>stat\<close> is the tree
  found at a path, \<open>None\<close> where nothing exists.
\<close>

datatype outcome = Succeeded | Failed | SpawnFailed string

record 'w sys =
  execSync :: "string \<Rightarrow> string \<Rightarrow> 'w \<Rightarrow> outcome \<times> 'w"
  stat :: "string \<Rightarrow> 'w \<Rightarrow> node option"
  chdir :: "string \<Rightarrow> 'w \<Rightarrow> string option"
  mkdirSync :: "string \<Rightarrow> 'w \<Rightarrow> string option \<times> 'w"
  copyFileSync :: "string \<Rightarrow> string \<Rightarrow> 'w \<Rightarrow> string option \<times> 'w"
  date_now :: "'w \<Rightarrow> nat \<times> 'w"

text \<open>
  Every call of \<^verbatim>\<open>execSync\<close> in the script passes \<^verbatim>\<open>{ stdio: 'inherit' }\<close>: the command
  writes to the streams of the process and nothing of its output is captured. When the
  command ends with a status other than 0 (\<open>Failed\<close>), the error that \<^verbatim>\<open>execSync\<close> throws
  has the message \<^verbatim>\<open>Command failed: \<close> followed by the command line, and no more. When the
  shell could not be started (\<open>SpawnFailed\<close>), the error is the one of the system, with its
  message.
\<close>

definition error_message :: "string \<Rightarrow> outcome \<Rightarrow> string option" where
  "error_message cmd out =
     (case out of
        Succeeded \<Rightarrow> None
      | Failed \<Rightarrow> Some (''Command failed: '' @ cmd)
      | SpawnFailed msg \<Rightarrow> Some msg)"

text \<open>
  Each call of \<^verbatim>\<open>execSync\<close> in the script is one call site; the trace records the site,
  the command line and the outcome (\<open>None\<close> for success, the message of the error thrown
  otherwise). The other calls record their resolved paths and whether they succeeded.
\<close>

datatype call_site =
    CloneSource | Checkout | BuildCommand | BuildScript
  | ClonePreview | GitConfig | GitAdd | GitCommit | GitPush
  | DeletePreviewPath | RemoveScratch

datatype effect =
    ConsoleLog string
  | ConsoleWarn string
  | ConsoleError string
  | Exec call_site string "string option"
  | Chdir string bool
  | Mkdir string bool
  | CopyFile string string bool
  | Uncaught string

record 'w pstate =
  world :: 'w
  cwd :: string
  trace :: "effect list"

text \<open>
  A statement of the script either completes with a value, throws an error (its message), or
  ends the process with \<^verbatim>\<open>process.exit(n)\<close>.
\<close>

datatype 'a result = Done 'a | Thrown string | Exited nat

type_synonym ('a, 'w) prog = "'w pstate \<Rightarrow> 'a result \<times> 'w pstate"

definition ret :: "'a \<Rightarrow> ('a, 'w) prog" where
  "ret x = (\<lambda>s. (Done x, s))"

definition throw :: "string \<Rightarrow> ('a, 'w) prog" where
  "throw e = (\<lambda>s. (Thrown e, s))"

definition process_exit :: "nat \<Rightarrow> ('a, 'w) prog" where
  "process_exit n = (\<lambda>s. (Exited n, s))"

definition bind :: "('a, 'w) prog \<Rightarrow> ('a \<Rightarrow> ('b, 'w) prog) \<Rightarrow> ('b, 'w) prog" where
  "bind m f = (\<lambda>s. case m s of
      (Done a, s') \<Rightarrow> f a s'
    | (Thrown e, s') \<Rightarrow> (Thrown e, s')
    | (Exited n, s') \<Rightarrow> (Exited n, s'))"

definition seq :: "(unit, 'w) prog \<Rightarrow> ('b, 'w) prog \<Rightarrow> ('b, 'w) prog" where
  "seq m k = bind m (\<lambda>_. k)"

definition try_catch :: "('a, 'w) prog \<Rightarrow> (string \<Rightarrow> ('a, 'w) prog) \<Rightarrow> ('a, 'w) prog" where
  "try_catch m h = (\<lambda>s. case m s of
      (Thrown e, s') \<Rightarrow> h e s'
    | (r, s') \<Rightarrow> (r, s'))"

definition lift :: "string + 'a \<Rightarrow> ('a, 'w) prog" where
  "lift r = (case r of Inl e \<Rightarrow> throw e | Inr a \<Rightarrow> ret a)"

definition emit :: "effect \<Rightarrow> (unit, 'w) prog" where
  "emit e = (\<lambda>s. (Done (), s\<lparr>trace := trace s @ [e]\<rparr>))"

definition exec :: "'w sys \<Rightarrow> call_site \<Rightarrow> string \<Rightarrow> (unit, 'w) prog" where
  "exec sys site cmd = (\<lambda>s. case execSync sys (cwd s) cmd (world s) of
      (out, w) \<Rightarrow>
        (case error_message cmd out of
           None \<Rightarrow> (Done (), s\<lparr>world := w, trace := trace s @ [Exec site cmd None]\<rparr>)
         | Some msg \<Rightarrow>
             (Thrown msg, s\<lparr>world := w, trace := trace s @ [Exec site cmd (Some msg)]\<rparr>)))"

definition existsSync :: "'w sys \<Rightarrow> string \<Rightarrow> 'w pstate \<Rightarrow> bool" where
  "existsSync sys p s = (stat sys (path_resolve (cwd s) p) (world s) \<noteq> None)"

definition process_chdir :: "'w sys \<Rightarrow> string \<Rightarrow> (unit, 'w) prog" where
  "process_chdir sys dir = (\<lambda>s.
     let d = path_resolve (cwd s) dir
     in case chdir sys d (world s) of
          None \<Rightarrow> (Done (), s\<lparr>cwd := d, trace := trace s @ [Chdir d True]\<rparr>)
        | Some msg \<Rightarrow> (Thrown msg, s\<lparr>trace := trace s @ [Chdir d False]\<rparr>))"

definition mkdir_recursive :: "'w sys \<Rightarrow> string \<Rightarrow> (unit, 'w) prog" where
  "mkdir_recursive sys dir = (\<lambda>s.
     let d = path_resolve (cwd s) dir
     in case mkdirSync sys d (world s) of
          (None, w) \<Rightarrow> (Done (), s\<lparr>world := w, trace := trace s @ [Mkdir d True]\<rparr>)
        | (Some msg, w) \<Rightarrow> (Thrown msg, s\<lparr>world := w, trace := trace s @ [Mkdir d False]\<rparr>))"

definition copyFile :: "'w sys \<Rightarrow> string \<Rightarrow> string \<Rightarrow> (unit, 'w) prog" where
  "copyFile sys src dst = (\<lambda>s.
     let a = path_resolve (cwd s) src; b = path_resolve (cwd s) dst
     in case copyFileSync sys a b (world s) of
          (None, w) \<Rightarrow> (Done (), s\<lparr>world := w, trace := trace s @ [CopyFile a b True]\<rparr>)
        | (Some msg, w) \<Rightarrow> (Thrown msg, s\<lparr>world := w, trace := trace s @ [CopyFile a b False]\<rparr>))"

definition now :: "'w sys \<Rightarrow> (nat, 'w) prog" where
  "now sys = (\<lambda>s. case date_now sys (world s) of (t, w) \<Rightarrow> (Done t, s\<lparr>world := w\<rparr>))"

section \<open>The script\<close>

subsection \<open>\<^verbatim>\<open>findHtmlFiles\<close>\<close>

text \<open>
  \<open>findHtmlFiles dir n\<close> is \<^verbatim>\<open>findHtmlFiles(dir)\<close> where \<open>n\<close> is what the file system has at
  \<open>dir\<close>; \<^verbatim>\<open>readdirSync\<close> throws on what is not a directory or cannot be listed. The paths come
  out in the order of the walk, each built with \<^verbatim>\<open>path.join\<close> from \<open>dir\<close>.
\<close>

fun findHtmlFiles :: "string \<Rightarrow> node \<Rightarrow> string + string list"
  and walk_items :: "string \<Rightarrow> (string \<times> node) list \<Rightarrow> string + string list" where
  "findHtmlFiles dir (Dir items) = walk_items dir items"
| "findHtmlFiles dir File = Inl (''ENOTDIR: not a directory, scandir '' @ dir)"
| "findHtmlFiles dir Other = Inl (''ENOTDIR: not a directory, scandir '' @ dir)"
| "findHtmlFiles dir Unreadable = Inl (''EACCES: permission denied, scandir '' @ dir)"
| "walk_items dir [] = Inr []"
| "walk_items dir ((name, n) # rest) =
     (if isDirectory n then
        (case findHtmlFiles (path_join [dir, name]) n of
           Inl e \<Rightarrow> Inl e
         | Inr sub \<Rightarrow>
             (case walk_items dir rest of Inl e \<Rightarrow> Inl e | Inr others \<Rightarrow> Inr (sub @ others)))
      else if isFile n \<and> endsWith name ''.html'' then
        (case walk_items dir rest of
           Inl e \<Rightarrow> Inl e
         | Inr others \<Rightarrow> Inr (path_join [dir, name] # others))
      else walk_items dir rest)"

subsection \<open>The inputs and the top-level constants\<close>

text \<open>
  \<^verbatim>\<open>config.json\<close> is taken as well formed: \<^verbatim>\<open>monitoredRepositories\<close> is an array and
  \<^verbatim>\<open>previewRepository\<close> an object. The environment holds the two token variables.
\<close>

record config =
  monitoredRepositories :: "json list"
  previewRepository_owner :: jsval
  previewRepository_name :: jsval

record env =
  PREVIEW_REPO_TOKEN :: "string option"
  GITHUB_TOKEN :: "string option"

text \<open>The constants of lines 13 to 33, which both handlers read.\<close>

record vars =
  action :: jsval
  repoName :: jsval
  prNumber :: jsval
  commitSha :: jsval
  repoFullName :: jsval
  repoOwner :: jsval
  previewRepoOwner :: jsval
  previewRepoName :: jsval
  previewPath :: string

text \<open>\<^verbatim>\<open>process.env.PREVIEW_REPO_TOKEN || process.env.GITHUB_TOKEN\<close>, and its template form.\<close>

definition previewToken :: "env \<Rightarrow> string option" where
  "previewToken e =
     (case PREVIEW_REPO_TOKEN e of
        Some t \<Rightarrow> if t \<noteq> [] then Some t else GITHUB_TOKEN e
      | None \<Rightarrow> GITHUB_TOKEN e)"

definition tpl_str :: "string option \<Rightarrow> string" where
  "tpl_str t = (case t of None \<Rightarrow> ''undefined'' | Some x \<Rightarrow> x)"

text \<open>\<^verbatim>\<open>commitSha.substring(0, 7)\<close>: only a string has the method.\<close>

fun substring_0_7 :: "jsval \<Rightarrow> string + string" where
  "substring_0_7 (Some (JStr x)) = Inr (take 7 x)"
| "substring_0_7 None = Inl (type_error ''substring'')"
| "substring_0_7 (Some JNull) = Inl (type_error ''substring'')"
| "substring_0_7 (Some v) = Inl ''TypeError: commitSha.substring is not a function''"

definition console_log :: "string \<Rightarrow> (unit, 'w) prog" where
  "console_log m = emit (ConsoleLog m)"

definition console_warn :: "string \<Rightarrow> (unit, 'w) prog" where
  "console_warn m = emit (ConsoleWarn m)"

definition console_error :: "string \<Rightarrow> (unit, 'w) prog" where
  "console_error m = emit (ConsoleError m)"

text \<open>
  \<^verbatim>\<open>console.log(`...`)\<close> and \<^verbatim>\<open>execSync(`...`, { stdio: 'inherit' })\<close> on a template
  literal: the literal is evaluated first, and the call is made when that has not thrown.
\<close>

definition log_template :: "string + string \<Rightarrow> (unit, 'w) prog" where
  "log_template t = bind (lift t) console_log"

definition exec_template :: "'w sys \<Rightarrow> call_site \<Rightarrow> string + string \<Rightarrow> (unit, 'w) prog" where
  "exec_template sys site t = bind (lift t) (exec sys site)"

subsection \<open>\<^verbatim>\<open>handlePreviewGeneration\<close>\<close>

definition buildScripts :: "string list" where
  "buildScripts =
     [''build-docs.sh'', ''generate-docs.sh'', ''build.sh'', ''npm run build-docs'',
      ''npm run generate-docs'', ''python generate_docs.py'', ''./generate.sh'']"

definition htmlDirs :: "string list" where
  "htmlDirs = [''dist'', ''output'', ''docs/html'', ''build'', ''html'', ''.'']"

text \<open>Step 1: clone the source repository and check the commit out.\<close>

definition clone_source_log :: "vars \<Rightarrow> string + string" where
  "clone_source_log v =
     template [Lit ''Cloning '', Sub (repoFullName v), Lit '' at commit '', Sub (commitSha v),
               Lit ''...'']"

definition clone_source_cmd :: "vars \<Rightarrow> string \<Rightarrow> string + string" where
  "clone_source_cmd v tempDir =
     template [Lit ''git clone https://github.com/'', Sub (repoFullName v), Lit ''.git '',
               Lit tempDir]"

definition clone_source :: "'w sys \<Rightarrow> vars \<Rightarrow> string \<Rightarrow> (unit, 'w) prog" where
  "clone_source sys v tempDir =
     seq (log_template (clone_source_log v))
    (seq (exec_template sys CloneSource (clone_source_cmd v tempDir))
    (seq (process_chdir sys tempDir)
         (exec_template sys Checkout (template [Lit ''git checkout '', Sub (commitSha v)]))))"

text \<open>
  Step 2, the loop over \<^verbatim>\<open>buildScripts\<close>; the value is \<^verbatim>\<open>buildExecuted\<close>. Only the
  command candidates run inside \<^verbatim>\<open>try\<close>; a script candidate runs when the file exists, and
  its failure leaves the loop as an exception.
\<close>

definition is_command :: "string \<Rightarrow> bool" where
  "is_command script = (str_includes script ''npm run'' \<or> str_includes script ''python'')"

definition script_cmd :: "string \<Rightarrow> string" where
  "script_cmd script = ''chmod +x '' @ script @ '' && ./'' @ script"

fun build_loop :: "'w sys \<Rightarrow> string list \<Rightarrow> (bool, 'w) prog" where
  "build_loop sys [] = ret False"
| "build_loop sys (script # rest) =
     (if is_command script then
        try_catch
          (seq (console_log (''Trying: '' @ script))
          (seq (exec sys BuildCommand script)
               (ret True)))
          (\<lambda>e. build_loop sys rest)
      else (\<lambda>s.
        if existsSync sys script s then
          (seq (console_log (''Executing: '' @ script))
          (seq (exec sys BuildScript (script_cmd script))
               (ret True))) s
        else build_loop sys rest s))"

definition build_discovery :: "'w sys \<Rightarrow> (unit, 'w) prog" where
  "build_discovery sys =
     seq (console_log ''Looking for build script...'')
         (bind (build_loop sys buildScripts) (\<lambda>buildExecuted.
            if \<not> buildExecuted then
              console_warn
                ''No build script found. Looking for HTML files in common directories...''
            else ret ()))"

text \<open>Step 3, the loop over \<^verbatim>\<open>htmlDirs\<close>; the value is \<^verbatim>\<open>htmlFiles\<close>.\<close>

fun locate_loop :: "'w sys \<Rightarrow> string list \<Rightarrow> (string list, 'w) prog" where
  "locate_loop sys [] = ret []"
| "locate_loop sys (dir # rest) = (\<lambda>s.
     case stat sys (path_resolve (cwd s) dir) (world s) of
       None \<Rightarrow> locate_loop sys rest s
     | Some n \<Rightarrow>
         bind (lift (findHtmlFiles dir n)) (\<lambda>files.
           if length files > 0 then
             seq (console_log (''Found '' @ show_nat (length files) @ '' HTML files in '' @ dir))
                 (ret files)
           else locate_loop sys rest) s)"

definition artifact_locator :: "'w sys \<Rightarrow> (string list, 'w) prog" where
  "artifact_locator sys =
     bind (locate_loop sys htmlDirs) (\<lambda>htmlFiles.
       if length htmlFiles = 0 then
         seq (console_error
                ''No HTML files found. Build script may not have generated output.'')
             (process_exit 1)
       else ret htmlFiles)"

text \<open>
  Step 5, the copy loop. \<^verbatim>\<open>path.relative\<close> and \<^verbatim>\<open>copyFileSync\<close> resolve \<open>file\<close> against the
  working directory of the process at that moment.
\<close>

fun copy_loop :: "'w sys \<Rightarrow> string \<Rightarrow> string \<Rightarrow> string list \<Rightarrow> (unit, 'w) prog" where
  "copy_loop sys tempDir targetDir [] = ret ()"
| "copy_loop sys tempDir targetDir (file # rest) = (\<lambda>s.
     let relativePath = path_relative (cwd s) tempDir file;
         targetFile = path_join [targetDir, relativePath];
         targetFileDir = path_dirname targetFile
     in seq (if \<not> existsSync sys targetFileDir s then mkdir_recursive sys targetFileDir
             else ret ())
       (seq (copyFile sys file targetFile)
       (seq (console_log (''Copied: '' @ relativePath))
            (copy_loop sys tempDir targetDir rest))) s)"

text \<open>
  The inner \<^verbatim>\<open>try\<close> of step 6 and of the cleanup: the handler inspects the message of
  whatever the block threw.
\<close>

definition tolerate_nothing_to_commit :: "(unit, 'w) prog \<Rightarrow> (unit, 'w) prog" where
  "tolerate_nothing_to_commit body =
     try_catch body
       (\<lambda>e. if str_includes e ''nothing to commit'' then console_log ''No changes to commit.''
            else throw e)"

definition git_identity :: "'w sys \<Rightarrow> (unit, 'w) prog" where
  "git_identity sys =
     seq (exec sys GitConfig ''git config user.name \"GitHub Actions\"'')
         (exec sys GitConfig ''git config user.email \"actions@github.com\"'')"

text \<open>Step 4 of the generation and step 1 of the cleanup: clone the preview repository.\<close>

definition clone_preview_log :: "vars \<Rightarrow> string + string" where
  "clone_preview_log v =
     template [Lit ''Cloning preview repository '', Sub (previewRepoOwner v), Lit ''/'',
               Sub (previewRepoName v), Lit ''...'']"

definition clone_preview_cmd :: "env \<Rightarrow> vars \<Rightarrow> string \<Rightarrow> string + string" where
  "clone_preview_cmd e v previewDir =
     template [Lit ''git clone https://'', Lit (tpl_str (previewToken e)), Lit ''@github.com/'',
               Sub (previewRepoOwner v), Lit ''/'', Sub (previewRepoName v), Lit ''.git '',
               Lit previewDir]"

definition clone_preview :: "'w sys \<Rightarrow> env \<Rightarrow> vars \<Rightarrow> string \<Rightarrow> (unit, 'w) prog" where
  "clone_preview sys e v previewDir =
     seq (log_template (clone_preview_log v))
    (seq (exec_template sys ClonePreview (clone_preview_cmd e v previewDir))
         (process_chdir sys previewDir))"

text \<open>Step 5: copy the files under the preview path.\<close>

definition copy_files ::
  "'w sys \<Rightarrow> vars \<Rightarrow> string \<Rightarrow> string \<Rightarrow> string list \<Rightarrow> (unit, 'w) prog" where
  "copy_files sys v tempDir previewDir htmlFiles =
     seq (console_log (''Copying HTML files to '' @ previewPath v @ ''...''))
    (let targetDir = path_join [previewDir, previewPath v]
     in seq (\<lambda>s. (if \<not> existsSync sys targetDir s then mkdir_recursive sys targetDir
                   else ret ()) s)
            (copy_loop sys tempDir targetDir htmlFiles))"

text \<open>
  Step 6: commit and push. The commit message embeds \<^verbatim>\<open>repoName\<close> and \<^verbatim>\<open>prNumber\<close> and
  then calls \<^verbatim>\<open>commitSha.substring\<close>, all inside the inner \<^verbatim>\<open>try\<close>.
\<close>

definition commit_preview :: "'w sys \<Rightarrow> vars \<Rightarrow> (unit, 'w) prog" where
  "commit_preview sys v =
     seq (console_log ''Committing changes...'')
    (seq (git_identity sys)
    (seq (exec sys GitAdd (''git add '' @ previewPath v))
         (tolerate_nothing_to_commit
            (bind (lift (template [Lit ''git commit -m \"Update preview for '',
                                   Sub (repoName v), Lit ''#'', Sub (prNumber v), Lit '' ('']))
               (\<lambda>prefix.
             bind (lift (substring_0_7 (commitSha v))) (\<lambda>sha7.
               seq (exec sys GitCommit (prefix @ sha7 @ '')\"''))
              (seq (exec sys GitPush ''git push origin main'')
                   (console_log ''Preview updated successfully!''))))))))"

definition publish ::
  "'w sys \<Rightarrow> env \<Rightarrow> vars \<Rightarrow> string \<Rightarrow> string \<Rightarrow> string list \<Rightarrow> (unit, 'w) prog" where
  "publish sys e v tempDir previewDir htmlFiles =
     seq (clone_preview sys e v previewDir)
    (seq (copy_files sys v tempDir previewDir htmlFiles)
         (commit_preview sys v))"

text \<open>The last two statements of both \<^verbatim>\<open>try\<close> blocks: leave and remove the scratch directories.\<close>

definition remove_scratch :: "'w sys \<Rightarrow> string \<Rightarrow> (unit, 'w) prog" where
  "remove_scratch sys dirs =
     seq (process_chdir sys ''/'') (exec sys RemoveScratch (''rm -rf '' @ dirs))"

text \<open>
  Steps 1 and 2 with the two scratch names, which come from two readings of the clock; the
  value is \<open>(tempDir, previewDir)\<close>.
\<close>

definition prepare_source :: "'w sys \<Rightarrow> vars \<Rightarrow> (string \<times> string, 'w) prog" where
  "prepare_source sys v =
     bind (now sys) (\<lambda>t1.
     bind (now sys) (\<lambda>t2.
       let tempDir = path_join [''/tmp'', ''preview-'' @ show_nat t1];
           previewDir = path_join [''/tmp'', ''preview-repo-'' @ show_nat t2]
       in seq (clone_source sys v tempDir)
         (seq (build_discovery sys)
              (ret (tempDir, previewDir)))))"

definition handlePreviewGeneration :: "'w sys \<Rightarrow> env \<Rightarrow> vars \<Rightarrow> (unit, 'w) prog" where
  "handlePreviewGeneration sys e v =
     try_catch
       (bind (prepare_source sys v) (\<lambda>(tempDir, previewDir).
        bind (artifact_locator sys) (\<lambda>htmlFiles.
          seq (publish sys e v tempDir previewDir htmlFiles)
              (remove_scratch sys (tempDir @ '' '' @ previewDir)))))
       (\<lambda>error.
          seq (console_error (''Error generating preview: '' @ error)) (process_exit 1))"

subsection \<open>\<^verbatim>\<open>handleCleanup\<close>\<close>

text \<open>Step 1 with the scratch name; the value is \<open>previewDir\<close>.\<close>

definition cleanup_clone :: "'w sys \<Rightarrow> env \<Rightarrow> vars \<Rightarrow> (string, 'w) prog" where
  "cleanup_clone sys e v =
     bind (now sys) (\<lambda>t.
       let previewDir = path_join [''/tmp'', ''preview-repo-cleanup-'' @ show_nat t]
       in seq (clone_preview sys e v previewDir) (ret previewDir))"

text \<open>Steps 2 and 3: delete the folder of the pull request, commit and push.\<close>

definition remover :: "'w sys \<Rightarrow> vars \<Rightarrow> string \<Rightarrow> (unit, 'w) prog" where
  "remover sys v previewDir =
     (let targetPath = path_join [previewDir, previewPath v]
      in (\<lambda>s.
        (if existsSync sys targetPath s then
           seq (console_log (''Deleting '' @ previewPath v @ ''...''))
          (seq (exec sys DeletePreviewPath (''rm -rf '' @ targetPath))
          (seq (console_log ''Committing deletion...'')
          (seq (git_identity sys)
          (seq (exec sys GitAdd ''git add -A'')
               (tolerate_nothing_to_commit
                  (seq (exec_template sys GitCommit
                          (template [Lit ''git commit -m \"Remove preview for '',
                                     Sub (repoName v), Lit ''#'', Sub (prNumber v),
                                     Lit ''\"'']))
                  (seq (exec sys GitPush ''git push origin main'')
                       (console_log ''Preview cleanup completed!''))))))))
         else
           console_log (''Preview folder '' @ previewPath v
             @ '' does not exist. Nothing to clean up.'')) s))"

definition handleCleanup :: "'w sys \<Rightarrow> env \<Rightarrow> vars \<Rightarrow> (unit, 'w) prog" where
  "handleCleanup sys e v =
     try_catch
       (bind (cleanup_clone sys e v) (\<lambda>previewDir.
          seq (remover sys v previewDir)
              (remove_scratch sys previewDir)))
       (\<lambda>error.
          seq (console_error (''Error during cleanup: '' @ error)) (process_exit 1))"

subsection \<open>The top level\<close>

text \<open>
  Lines 13 to 51. Destructuring \<^verbatim>\<open>null\<close> throws; every other payload gives
  \<^verbatim>\<open>undefined\<close> for a member it does not have. The template literal of line 33 converts
  \<^verbatim>\<open>repoName\<close> and \<^verbatim>\<open>prNumber\<close> before the filter runs.
\<close>

definition main :: "config \<Rightarrow> env \<Rightarrow> json \<Rightarrow> 'w sys \<Rightarrow> (unit, 'w) prog" where
  "main cfg e eventPayload sys =
     (if eventPayload = JNull then throw (type_error ''action'')
      else
        let act = own_prop eventPayload ''action'';
            repository = own_prop eventPayload ''repository'';
            pull_request = own_prop eventPayload ''pull_request''
        in if \<not> truthy act \<or> \<not> truthy repository \<or> \<not> truthy pull_request then
             seq (console_error ''Missing required event payload fields'') (process_exit 1)
           else
             bind (lift (get_prop repository ''name'')) (\<lambda>name.
             bind (lift (get_prop pull_request ''number'')) (\<lambda>number.
             bind (lift (get_prop pull_request ''head'')) (\<lambda>head.
             bind (lift (get_prop head ''sha'')) (\<lambda>sha.
             bind (lift (get_prop repository ''full_name'')) (\<lambda>full_name.
             bind (lift (get_prop repository ''owner'')) (\<lambda>owner.
             bind (lift (get_prop owner ''login'')) (\<lambda>login.
             bind (lift (template [Sub name, Lit ''/'', Sub number])) (\<lambda>path.
               let v = \<lparr> action = act, repoName = name, prNumber = number, commitSha = sha,
                         repoFullName = full_name, repoOwner = login,
                         previewRepoOwner = previewRepository_owner cfg,
                         previewRepoName = previewRepository_name cfg,
                         previewPath = path \<rparr>
               in if \<not> array_includes (monitoredRepositories cfg) name then
                    seq (log_template
                           (template [Lit ''Repository '', Sub name,
                                      Lit '' is not in monitored list. Skipping.'']))
                        (process_exit 0)
                  else
                    seq (log_template
                           (template [Lit ''Processing PR #'', Sub number, Lit '' from '',
                                      Sub full_name, Lit '' (action: '', Sub act, Lit '')'']))
                        (if act = Some (JStr ''opened'') \<or> act = Some (JStr ''synchronize'')
                         then handlePreviewGeneration sys e v
                         else if act = Some (JStr ''closed'') \<or> act = Some (JStr ''merged'')
                         then handleCleanup sys e v
                         else seq (log_template
                                     (template [Lit ''Action '', Sub act,
                                                Lit '' not handled. Skipping.'']))
                                  (process_exit 0)))))))))))"

text \<open>
  One invocation, started in the directory \<open>dir\<close> with an empty trace: the exit code and the
  final state. The script ends with code 0 when it runs to its end; an exception that nothing
  catches is printed and ends it with code 1.
\<close>

definition exit_code :: "'a result \<Rightarrow> nat" where
  "exit_code r = (case r of Done u \<Rightarrow> 0 | Thrown err \<Rightarrow> 1 | Exited n \<Rightarrow> n)"

definition run :: "config \<Rightarrow> env \<Rightarrow> json \<Rightarrow> 'w sys \<Rightarrow> string \<Rightarrow> 'w \<Rightarrow> nat \<times> 'w pstate" where
  "run cfg e eventPayload sys dir w =
     (case main cfg e eventPayload sys \<lparr> world = w, cwd = dir, trace = [] \<rparr> of
        (Thrown err, s') \<Rightarrow> (1, s'\<lparr>trace := trace s' @ [Uncaught err]\<rparr>)
      | (r, s') \<Rightarrow> (exit_code r, s'))"

section \<open>Vocabulary of the properties\<close>

text \<open>
  A value whose properties can be read (neither \<^verbatim>\<open>undefined\<close> nor \<^verbatim>\<open>null\<close>), a value that
  a template literal can embed (its conversion to a string does not throw), and the member
  \<open>k2\<close> of the member \<open>k1\<close> of an event.
\<close>

definition readable :: "jsval \<Rightarrow> bool" where
  "readable v = (v \<noteq> None \<and> v \<noteq> Some JNull)"

definition has_text :: "jsval \<Rightarrow> bool" where
  "has_text v = (case tpl v of Inl e \<Rightarrow> False | Inr s \<Rightarrow> True)"

definition event_field :: "json \<Rightarrow> string \<Rightarrow> string \<Rightarrow> jsval" where
  "event_field ev k1 k2 = (case own_prop ev k1 of None \<Rightarrow> None | Some x \<Rightarrow> own_prop x k2)"

text \<open>
  A valid event has the structure of the interface as far as lines 13 to 33 depend on it:
  \<^verbatim>\<open>action\<close>, \<^verbatim>\<open>repository\<close> and \<^verbatim>\<open>pull_request\<close> pass the intake,
  \<^verbatim>\<open>pull_request.head\<close> and \<^verbatim>\<open>repository.owner\<close> are there to be read, and the name of
  the repository and the number of the pull request can be embedded in the preview path (as
  every string and every number can).
\<close>

definition valid_event :: "json \<Rightarrow> bool" where
  "valid_event ev =
     (truthy (own_prop ev ''action'') \<and> truthy (own_prop ev ''repository'')
      \<and> truthy (own_prop ev ''pull_request'')
      \<and> readable (event_field ev ''pull_request'' ''head'')
      \<and> readable (event_field ev ''repository'' ''owner'')
      \<and> has_text (event_field ev ''repository'' ''name'')
      \<and> has_text (event_field ev ''pull_request'' ''number''))"

text \<open>
  What an invocation added to the trace between two states, and tests on a stretch of trace:
  a call site was reached, a call site was reached and its command succeeded, a build script
  was run and failed.
\<close>

definition new_effects :: "'w pstate \<Rightarrow> 'w pstate \<Rightarrow> effect list" where
  "new_effects s s' = drop (length (trace s)) (trace s')"

fun exec_at :: "call_site \<Rightarrow> effect \<Rightarrow> bool" where
  "exec_at site (Exec s c r) = (s = site)"
| "exec_at site x = False"

fun exec_ok_at :: "call_site \<Rightarrow> effect \<Rightarrow> bool" where
  "exec_ok_at site (Exec s c r) = (s = site \<and> r = None)"
| "exec_ok_at site x = False"

definition attempted :: "call_site \<Rightarrow> effect list \<Rightarrow> bool" where
  "attempted site ext = list_ex (exec_at site) ext"

definition succeeded :: "call_site \<Rightarrow> effect list \<Rightarrow> bool" where
  "succeeded site ext = list_ex (exec_ok_at site) ext"

fun failed_script :: "effect \<Rightarrow> bool" where
  "failed_script (Exec s c r) = (s = BuildScript \<and> r \<noteq> None)"
| "failed_script x = False"

fun is_copy :: "effect \<Rightarrow> bool" where
  "is_copy (CopyFile a b ok) = True"
| "is_copy x = False"

text \<open>
  The effects of the phases: what the build loop may add, what steps 1 to 3 may add, what
  counts as publishing (the clone of the preview repository, the copies, the commit and the
  push), what the publisher and the remover may add, and what is not the removal of the
  scratch directories.
\<close>

fun build_effect :: "effect \<Rightarrow> bool" where
  "build_effect (ConsoleLog m) = True"
| "build_effect (ConsoleWarn m) = True"
| "build_effect (Exec s c r) = (s = BuildCommand \<or> s = BuildScript)"
| "build_effect x = False"

fun source_effect :: "effect \<Rightarrow> bool" where
  "source_effect (ConsoleLog m) = True"
| "source_effect (ConsoleWarn m) = True"
| "source_effect (ConsoleError m) = True"
| "source_effect (Chdir d ok) = True"
| "source_effect (Exec s c r) =
     (s = CloneSource \<or> s = Checkout \<or> s = BuildCommand \<or> s = BuildScript)"
| "source_effect x = False"

fun publish_effect :: "effect \<Rightarrow> bool" where
  "publish_effect (Exec s c r) =
     (s = ClonePreview \<or> s = GitConfig \<or> s = GitAdd \<or> s = GitCommit \<or> s = GitPush)"
| "publish_effect (Mkdir d ok) = True"
| "publish_effect (CopyFile a b ok) = True"
| "publish_effect x = False"

fun late_effect :: "effect \<Rightarrow> bool" where
  "late_effect (ConsoleLog m) = True"
| "late_effect (Chdir d ok) = True"
| "late_effect (Mkdir d ok) = True"
| "late_effect (CopyFile a b ok) = True"
| "late_effect (Exec s c r) =
     (s = ClonePreview \<or> s = GitConfig \<or> s = GitAdd \<or> s = GitCommit \<or> s = GitPush
      \<or> s = DeletePreviewPath)"
| "late_effect x = False"

fun calm :: "effect \<Rightarrow> bool" where
  "calm (Exec s c r) = (s \<noteq> RemoveScratch)"
| "calm x = True"

text \<open>
  A candidate directory that yields no markup file: it does not exist, or its walk returns
  the empty list. The line the locator logs for the directory it takes.
\<close>

definition yields_nothing :: "'w sys \<Rightarrow> 'w pstate \<Rightarrow> string \<Rightarrow> bool" where
  "yields_nothing sys s dir =
     (case stat sys (path_resolve (cwd s) dir) (world s) of
        None \<Rightarrow> True
      | Some n \<Rightarrow> findHtmlFiles dir n = Inr [])"

definition found_log :: "string list \<Rightarrow> string \<Rightarrow> effect" where
  "found_log files dir =
     ConsoleLog (''Found '' @ show_nat (length files) @ '' HTML files in '' @ dir)"

text \<open>
  \<open>spec m Q\<close>: from every state, the program \<open>m\<close> extends the trace by some \<open>ext\<close>, and \<open>Q\<close>
  holds of \<open>ext\<close> and the result. \<open>quiet P m\<close>: every effect that \<open>m\<close> adds satisfies \<open>P\<close>, and
  \<open>m\<close> ends the process with no code but 1.
\<close>

definition spec :: "('a, 'w) prog \<Rightarrow> (effect list \<Rightarrow> 'a result \<Rightarrow> bool) \<Rightarrow> bool" where
  "spec m Q = (\<forall>s. \<exists>ext. trace (snd (m s)) = trace s @ ext \<and> Q ext (fst (m s)))"

definition quiet :: "(effect \<Rightarrow> bool) \<Rightarrow> ('a, 'w) prog \<Rightarrow> bool" where
  "quiet P m = spec m (\<lambda>ext r. list_all P ext \<and> (\<forall>n. r = Exited n \<longrightarrow> n = 1))"

text \<open>
  The summaries of the phases. The build loop never ends the process; when it completes no
  script has failed, and when it throws, the failure of a script is its last effect, the
  error thrown is the error of that script, and no script failed before. In a stretch of
  the flow that holds the build loop, a failed script is the last effect and its error is
  thrown. A flow that has run its last two statements has removed the scratch directories
  exactly when it completes; behind the outer \<^verbatim>\<open>catch\<close> it completes or exits with code 1.
\<close>

definition script_failure :: "effect list \<Rightarrow> 'a result \<Rightarrow> bool" where
  "script_failure ext r =
     (case r of
        Done a \<Rightarrow> \<not> list_ex failed_script ext
      | Thrown m \<Rightarrow>
          (\<exists>pre c. ext = pre @ [Exec BuildScript c (Some m)] \<and> \<not> list_ex failed_script pre)
      | Exited n \<Rightarrow> False)"

definition script_fatal :: "effect list \<Rightarrow> 'a result \<Rightarrow> bool" where
  "script_fatal ext r =
     (list_ex failed_script ext \<longrightarrow>
        (\<exists>pre c m. r = Thrown m \<and> ext = pre @ [Exec BuildScript c (Some m)]))"

definition finished :: "effect list \<Rightarrow> unit result \<Rightarrow> bool" where
  "finished ext r =
     ((\<forall>n. r = Exited n \<longrightarrow> n = 1)
      \<and> (r = Done () \<longrightarrow> ext \<noteq> [] \<and> (\<exists>c. last ext = Exec RemoveScratch c None))
      \<and> (r \<noteq> Done () \<longrightarrow> \<not> succeeded RemoveScratch ext))"

definition ended :: "effect list \<Rightarrow> unit result \<Rightarrow> bool" where
  "ended ext r = (finished ext r \<and> (r = Done () \<or> r = Exited 1))"

section \<open>Example inputs\<close>

definition ex_cfg :: config where
  "ex_cfg = \<lparr> monitoredRepositories = [JStr ''docs-site''],
              previewRepository_owner = Some (JStr ''acme''),
              previewRepository_name = Some (JStr ''previews'') \<rparr>"

definition ex_env :: env where
  "ex_env = \<lparr> PREVIEW_REPO_TOKEN = None, GITHUB_TOKEN = Some ''tok'' \<rparr>"

text \<open>An event for pull request 42 of a repository, with or without the head commit.\<close>

definition ex_event :: "string \<Rightarrow> string \<Rightarrow> json \<Rightarrow> json" where
  "ex_event act name head =
     JObj [(''action'', JStr act),
           (''repository'', JObj [(''name'', JStr name),
                                 (''full_name'', JStr (''acme/'' @ name)),
                                 (''owner'', JObj [(''login'', JStr ''acme'')])]),
           (''pull_request'', JObj [(''number'', JNum ''42''), (''head'', head)])]"

definition ex_head :: json where
  "ex_head = JObj [(''sha'', JStr ''abc1234def'')]"

text \<open>
  A world over a step counter: the clock reads 1000, every call succeeds except the commands
  listed in \<open>failing\<close>, which end with a status other than 0, and \<open>tree\<close> says what exists at
  a path.
\<close>

definition ex_sys :: "string list \<Rightarrow> (string \<Rightarrow> node option) \<Rightarrow> nat sys" where
  "ex_sys failing tree =
     \<lparr> execSync = (\<lambda>dir cmd w. (if cmd \<in> set failing then Failed else Succeeded, Suc w)),
       stat = (\<lambda>p w. tree p),
       chdir = (\<lambda>p w. None),
       mkdirSync = (\<lambda>p w. (None, Suc w)),
       copyFileSync = (\<lambda>a b w. (None, Suc w)),
       date_now = (\<lambda>w. (1000, w)) \<rparr>"

text \<open>The constants of the script for pull request 42 of \<^verbatim>\<open>docs-site\<close>, and a fresh state.\<close>

definition ex_vars :: vars where
  "ex_vars = \<lparr> action = Some (JStr ''closed''), repoName = Some (JStr ''docs-site''),
     prNumber = Some (JNum ''42''), commitSha = Some (JStr ''abc1234def''),
     repoFullName = Some (JStr ''acme/docs-site''), repoOwner = Some (JStr ''acme''),
     previewRepoOwner = Some (JStr ''acme''), previewRepoName = Some (JStr ''previews''),
     previewPath = ''docs-site/42'' \<rparr>"

definition ex_start :: "nat pstate" where
  "ex_start = \<lparr> world = 0, cwd = ''/'', trace = [] \<rparr>"

text \<open>
  File systems: a source tree with a build script; a preview repository that holds the preview
  of the pull request; a source tree whose build left \<^verbatim>\<open>dist/index.html\<close>; and a working
  tree in \<^verbatim>\<open>/w\<close> where \<^verbatim>\<open>dist\<close> has no markup, \<^verbatim>\<open>output\<close> has three markup files and
  \<^verbatim>\<open>docs/html\<close> has five.
\<close>

definition ex_script_tree :: "string \<Rightarrow> node option" where
  "ex_script_tree p = (if p = ''/tmp/preview-1000/build-docs.sh'' then Some File else None)"

definition ex_published_tree :: "string \<Rightarrow> node option" where
  "ex_published_tree p =
     (if p = ''/tmp/preview-repo-cleanup-1000/docs-site/42''
      then Some (Dir [(''index.html'', File)]) else None)"

definition ex_built :: "string \<Rightarrow> node option" where
  "ex_built p =
     (if p = ''/tmp/preview-1000/dist'' then Some (Dir [(''index.html'', File)]) else None)"

definition ex_tree :: "string \<Rightarrow> node option" where
  "ex_tree p =
     (if p = ''/w/dist'' then Some (Dir [(''notes.txt'', File)])
      else if p = ''/w/output'' then
        Some (Dir [(''a.html'', File), (''sub'', Dir [(''b.html'', File)]), (''c.html'', File)])
      else if p = ''/w/docs/html'' then
        Some (Dir [(''1.html'', File), (''2.html'', File), (''3.html'', File),
                   (''4.html'', File), (''5.html'', File)])
      else None)"

text \<open>
  Failing commands: every build command; the build script; the checkout; and the commit of
  a generation or of a cleanup that finds nothing to commit, where \<^verbatim>\<open>git commit\<close> prints
  \<^verbatim>\<open>nothing to commit, working tree clean\<close> on its standard output and ends with status 1.
\<close>

definition ex_no_build :: "string list" where
  "ex_no_build =
     [''npm run build-docs'', ''npm run generate-docs'', ''python generate_docs.py'']"

definition ex_bad_script :: "string list" where
  "ex_bad_script = [''chmod +x build-docs.sh && ./build-docs.sh'']"

definition ex_bad_checkout :: "string list" where
  "ex_bad_checkout = [''git checkout abc1234def'']"

definition ex_unchanged :: "string list" where
  "ex_unchanged =
     [''git commit -m \"Update preview for docs-site#42 (abc1234)\"'',
      ''git commit -m \"Remove preview for docs-site#42\"'']"

section \<open>Properties\<close>

lemmas prog_defs = seq_def bind_def ret_def throw_def process_exit_def lift_def emit_def
  console_log_def console_error_def console_warn_def try_catch_def log_template_def

lemma get_prop_truthy: "truthy v \<Longrightarrow> get_prop v k = Inr (own_prop (the v) k)"
  by (cases v rule: truthy.cases) auto

lemma get_prop_readable: "readable v \<Longrightarrow> get_prop v k = Inr (own_prop (the v) k)"
  by (cases v; cases "the v") (auto simp: readable_def)

lemma has_text_tpl: "has_text v \<Longrightarrow> \<exists>t. tpl v = Inr t"
  by (cases "tpl v") (auto simp: has_text_def)

subsection \<open>Reading a result back\<close>

lemma bind_Done:
  "bind m f s = (Done b, s2) \<Longrightarrow> \<exists>a s1. m s = (Done a, s1) \<and> f a s1 = (Done b, s2)"
  by (cases "m s"; cases "fst (m s)") (auto simp: bind_def)

lemma seq_Done:
  "seq m k s = (Done b, s2) \<Longrightarrow> \<exists>s1. m s = (Done (), s1) \<and> k s1 = (Done b, s2)"
  unfolding seq_def by (drule bind_Done) auto

lemma lift_Done: "lift t s = (Done a, s1) \<Longrightarrow> t = Inr a \<and> s1 = s"
  by (cases t) (auto simp: lift_def ret_def throw_def)

lemma exec_Done:
  "exec sys site cmd s = (Done u, s1) \<Longrightarrow>
     \<exists>w. execSync sys (cwd s) cmd (world s) = (Succeeded, w)
       \<and> s1 = s\<lparr>world := w, trace := trace s @ [Exec site cmd None]\<rparr>"
  by (cases "execSync sys (cwd s) cmd (world s)"; cases "fst (execSync sys (cwd s) cmd (world s))")
     (auto simp: exec_def error_message_def)

lemma log_template_Done:
  assumes "log_template t s = (Done u, s1)"
  shows "\<exists>m. t = Inr m \<and> s1 = s\<lparr>trace := trace s @ [ConsoleLog m]\<rparr>"
proof -
  from bind_Done[OF assms[unfolded log_template_def]] obtain m sa where
    a: "lift t s = (Done m, sa)" and b: "console_log m sa = (Done u, s1)"
    by blast
  from lift_Done[OF a] b show ?thesis
    by (auto simp: console_log_def emit_def)
qed

lemma exec_template_Done:
  assumes "exec_template sys site t s = (Done u, s1)"
  shows "\<exists>c w. t = Inr c \<and> execSync sys (cwd s) c (world s) = (Succeeded, w)
           \<and> s1 = s\<lparr>world := w, trace := trace s @ [Exec site c None]\<rparr>"
proof -
  from bind_Done[OF assms[unfolded exec_template_def]] obtain c sa where
    a: "lift t s = (Done c, sa)" and b: "exec sys site c sa = (Done u, s1)"
    by blast
  from lift_Done[OF a] have t: "t = Inr c" and sa: "sa = s"
    by simp_all
  from exec_Done[OF b[unfolded sa]] t show ?thesis
    by blast
qed

lemma chdir_Done:
  "process_chdir sys dir s = (Done u, s1) \<Longrightarrow>
     chdir sys (path_resolve (cwd s) dir) (world s) = None
       \<and> s1 = s\<lparr>cwd := path_resolve (cwd s) dir,
                 trace := trace s @ [Chdir (path_resolve (cwd s) dir) True]\<rparr>"
  by (cases "chdir sys (path_resolve (cwd s) dir) (world s)")
     (auto simp: process_chdir_def Let_def)

lemma now_Done:
  "now sys s = (r, s1) \<Longrightarrow>
     \<exists>t w. date_now sys (world s) = (t, w) \<and> r = Done t \<and> s1 = s\<lparr>world := w\<rparr>"
  by (cases "date_now sys (world s)") (auto simp: now_def)

lemma resolve_root: "path_resolve d ''/'' = ''/''"
  by (simp add: path_resolve_def is_absolute_def)

lemma new_effects_append: "trace s' = trace s @ ext \<Longrightarrow> new_effects s s' = ext"
  by (simp add: new_effects_def)

subsection \<open>Tests on traces\<close>

lemma attempted_simps [simp]:
  "attempted site [] = False"
  "attempted site (x # xs) = (exec_at site x \<or> attempted site xs)"
  "attempted site (xs @ ys) = (attempted site xs \<or> attempted site ys)"
  by (simp_all add: attempted_def)

lemma succeeded_simps [simp]:
  "succeeded site [] = False"
  "succeeded site (x # xs) = (exec_ok_at site x \<or> succeeded site xs)"
  "succeeded site (xs @ ys) = (succeeded site xs \<or> succeeded site ys)"
  by (simp_all add: succeeded_def)

lemma calm_facts:
  "list_all calm ext \<Longrightarrow> \<not> attempted RemoveScratch ext \<and> \<not> succeeded RemoveScratch ext"
proof (induction ext)
  case Nil
  then show ?case by simp
next
  case (Cons x xs)
  then show ?case by (cases x) auto
qed

lemma no_failed_script: "list_all (\<lambda>x. \<not> failed_script x) ext = (\<not> list_ex failed_script ext)"
  by (induction ext) auto

lemma build_effect_source: "build_effect x \<Longrightarrow> source_effect x"
  by (cases x) auto

lemma source_effect_calm: "source_effect x \<Longrightarrow> calm x"
  by (cases x) auto

lemma source_effect_not_publish: "source_effect x \<Longrightarrow> \<not> publish_effect x"
  by (cases x) auto

lemma late_effect_calm: "late_effect x \<Longrightarrow> calm x"
  by (cases x) auto

lemma late_effect_no_script: "late_effect x \<Longrightarrow> \<not> failed_script x"
  by (cases x) auto

subsection \<open>Rules for the summaries\<close>

lemma specI:
  "(\<And>s. \<exists>ext. trace (snd (m s)) = trace s @ ext \<and> Q ext (fst (m s))) \<Longrightarrow> spec m Q"
  by (simp add: spec_def)

lemma specD: "spec m Q \<Longrightarrow> m s = (r, s') \<Longrightarrow> \<exists>ext. trace s' = trace s @ ext \<and> Q ext r"
  by (auto simp: spec_def dest: spec[of _ s])

lemma spec_weaken: "spec m Q \<Longrightarrow> (\<And>ext r. Q ext r \<Longrightarrow> Q' ext r) \<Longrightarrow> spec m Q'"
  by (fastforce simp: spec_def)

lemma spec_ret: "Q [] (Done x) \<Longrightarrow> spec (ret x) Q"
  by (simp add: spec_def ret_def)

lemma spec_throw: "Q [] (Thrown x) \<Longrightarrow> spec (throw x) Q"
  by (simp add: spec_def throw_def)

lemma spec_exit: "Q [] (Exited n) \<Longrightarrow> spec (process_exit n) Q"
  by (simp add: spec_def process_exit_def)

lemma spec_lift: "(\<And>x. Q [] (Thrown x)) \<Longrightarrow> (\<And>a. Q [] (Done a)) \<Longrightarrow> spec (lift r) Q"
  by (cases r) (simp_all add: spec_def lift_def ret_def throw_def)

lemma spec_emit: "Q [x] (Done ()) \<Longrightarrow> spec (emit x) Q"
  by (simp add: spec_def emit_def)

lemma spec_exec:
  "Q [Exec site cmd None] (Done ()) \<Longrightarrow> (\<And>m. Q [Exec site cmd (Some m)] (Thrown m))
   \<Longrightarrow> spec (exec sys site cmd) Q"
  by (auto simp: spec_def exec_def split: prod.splits option.splits)

lemma spec_exec_cases:
  "spec (exec sys site cmd)
     (\<lambda>ext r. (r = Done () \<and> ext = [Exec site cmd None])
        \<or> (\<exists>m. r = Thrown m \<and> ext = [Exec site cmd (Some m)]))"
  by (rule spec_exec) simp_all

lemma spec_chdir:
  "(\<And>d. Q [Chdir d True] (Done ())) \<Longrightarrow> (\<And>d m. Q [Chdir d False] (Thrown m))
   \<Longrightarrow> spec (process_chdir sys dir) Q"
  by (auto simp: spec_def process_chdir_def Let_def split: prod.splits option.splits)

lemma spec_mkdir:
  "(\<And>d. Q [Mkdir d True] (Done ())) \<Longrightarrow> (\<And>d m. Q [Mkdir d False] (Thrown m))
   \<Longrightarrow> spec (mkdir_recursive sys dir) Q"
  by (auto simp: spec_def mkdir_recursive_def Let_def split: prod.splits option.splits)

lemma spec_copy:
  "(\<And>a b. Q [CopyFile a b True] (Done ())) \<Longrightarrow> (\<And>a b m. Q [CopyFile a b False] (Thrown m))
   \<Longrightarrow> spec (copyFile sys src dst) Q"
  by (auto simp: spec_def copyFile_def Let_def split: prod.splits option.splits)

lemma spec_now: "(\<And>t. Q [] (Done t)) \<Longrightarrow> spec (now sys) Q"
  by (auto simp: spec_def now_def split: prod.splits)

lemma spec_bind:
  assumes "spec m Q1" and "\<And>a. spec (f a) (Q2 a)"
    and "\<And>e1 a e2 r. Q1 e1 (Done a) \<Longrightarrow> Q2 a e2 r \<Longrightarrow> Q (e1 @ e2) r"
    and "\<And>e1 x. Q1 e1 (Thrown x) \<Longrightarrow> Q e1 (Thrown x)"
    and "\<And>e1 n. Q1 e1 (Exited n) \<Longrightarrow> Q e1 (Exited n)"
  shows "spec (bind m f) Q"
proof (rule specI)
  fix s
  obtain r s1 where m: "m s = (r, s1)"
    by (cases "m s")
  from specD[OF assms(1) m] obtain e1 where e1: "trace s1 = trace s @ e1" "Q1 e1 r"
    by blast
  show "\<exists>ext. trace (snd (bind m f s)) = trace s @ ext \<and> Q ext (fst (bind m f s))"
  proof (cases r)
    case (Done a)
    obtain r2 s2 where f: "f a s1 = (r2, s2)"
      by (cases "f a s1")
    from specD[OF assms(2) f] obtain e2 where e2: "trace s2 = trace s1 @ e2" "Q2 a e2 r2"
      by blast
    from assms(3)[OF e1(2)[unfolded Done] e2(2)] e1 e2 m f Done show ?thesis
      by (auto simp: bind_def)
  next
    case (Thrown x)
    with assms(4) e1 m show ?thesis
      by (auto simp: bind_def)
  next
    case (Exited n)
    with assms(5) e1 m show ?thesis
      by (auto simp: bind_def)
  qed
qed

lemma spec_seq:
  assumes "spec m Q1" and "spec k Q2"
    and "\<And>e1 e2 r. Q1 e1 (Done ()) \<Longrightarrow> Q2 e2 r \<Longrightarrow> Q (e1 @ e2) r"
    and "\<And>e1 x. Q1 e1 (Thrown x) \<Longrightarrow> Q e1 (Thrown x)"
    and "\<And>e1 n. Q1 e1 (Exited n) \<Longrightarrow> Q e1 (Exited n)"
  shows "spec (seq m k) Q"
  unfolding seq_def using assms
  by (rule_tac spec_bind[where ?Q1.0=Q1 and ?Q2.0="\<lambda>_. Q2"]) auto

lemma spec_try:
  assumes "spec m Q1" and "\<And>x. spec (h x) (Q2 x)"
    and "\<And>e1 x e2 r. Q1 e1 (Thrown x) \<Longrightarrow> Q2 x e2 r \<Longrightarrow> Q (e1 @ e2) r"
    and "\<And>e1 a. Q1 e1 (Done a) \<Longrightarrow> Q e1 (Done a)"
    and "\<And>e1 n. Q1 e1 (Exited n) \<Longrightarrow> Q e1 (Exited n)"
  shows "spec (try_catch m h) Q"
proof (rule specI)
  fix s
  obtain r s1 where m: "m s = (r, s1)"
    by (cases "m s")
  from specD[OF assms(1) m] obtain e1 where e1: "trace s1 = trace s @ e1" "Q1 e1 r"
    by blast
  show "\<exists>ext. trace (snd (try_catch m h s)) = trace s @ ext \<and> Q ext (fst (try_catch m h s))"
  proof (cases r)
    case (Thrown x)
    obtain r2 s2 where f: "h x s1 = (r2, s2)"
      by (cases "h x s1")
    from specD[OF assms(2) f] obtain e2 where e2: "trace s2 = trace s1 @ e2" "Q2 x e2 r2"
      by blast
    from assms(3)[OF e1(2)[unfolded Thrown] e2(2)] e1 e2 m f Thrown show ?thesis
      by (auto simp: try_catch_def)
  next
    case (Done a)
    with assms(4) e1 m show ?thesis
      by (auto simp: try_catch_def)
  next
    case (Exited n)
    with assms(5) e1 m show ?thesis
      by (auto simp: try_catch_def)
  qed
qed

lemma spec_cond: "spec m Q \<Longrightarrow> spec k Q \<Longrightarrow> spec (\<lambda>s. if c s then m s else k s) Q"
  by (auto simp: spec_def)

lemma spec_cond': "spec m Q \<Longrightarrow> spec k Q \<Longrightarrow> spec (\<lambda>s. (if c s then m else k) s) Q"
  by (auto simp: spec_def)

lemma quiet_ret: "quiet P (ret x)"
  by (simp add: quiet_def spec_ret)

lemma quiet_throw: "quiet P (throw x)"
  by (simp add: quiet_def spec_throw)

lemma quiet_exit: "quiet P (process_exit 1)"
  by (simp add: quiet_def spec_exit)

lemma quiet_lift: "quiet P (lift r)"
  by (simp add: quiet_def spec_lift)

lemma quiet_now: "quiet P (now sys)"
  by (simp add: quiet_def spec_now)

lemma quiet_emit: "P x \<Longrightarrow> quiet P (emit x)"
  by (simp add: quiet_def spec_emit)

lemma quiet_log: "P (ConsoleLog m) \<Longrightarrow> quiet P (console_log m)"
  by (simp add: console_log_def quiet_emit)

lemma quiet_warn: "P (ConsoleWarn m) \<Longrightarrow> quiet P (console_warn m)"
  by (simp add: console_warn_def quiet_emit)

lemma quiet_error: "P (ConsoleError m) \<Longrightarrow> quiet P (console_error m)"
  by (simp add: console_error_def quiet_emit)

lemma quiet_exec: "(\<And>r. P (Exec site cmd r)) \<Longrightarrow> quiet P (exec sys site cmd)"
  unfolding quiet_def by (rule spec_exec) simp_all

lemma quiet_chdir: "(\<And>d b. P (Chdir d b)) \<Longrightarrow> quiet P (process_chdir sys dir)"
  unfolding quiet_def by (rule spec_chdir) simp_all

lemma quiet_mkdir: "(\<And>d b. P (Mkdir d b)) \<Longrightarrow> quiet P (mkdir_recursive sys dir)"
  unfolding quiet_def by (rule spec_mkdir) simp_all

lemma quiet_copy: "(\<And>a b ok. P (CopyFile a b ok)) \<Longrightarrow> quiet P (copyFile sys src dst)"
  unfolding quiet_def by (rule spec_copy) simp_all

lemma quiet_bind: "quiet P m \<Longrightarrow> (\<And>a. quiet P (f a)) \<Longrightarrow> quiet P (bind m f)"
  unfolding quiet_def
  by (erule spec_bind[where
        ?Q2.0="\<lambda>a ext r. list_all P ext \<and> (\<forall>n. r = Exited n \<longrightarrow> n = 1)"])
     simp_all

lemma quiet_log_template: "(\<And>m. P (ConsoleLog m)) \<Longrightarrow> quiet P (log_template t)"
  unfolding log_template_def by (intro quiet_bind quiet_lift quiet_log)

lemma quiet_exec_template:
  "(\<And>c r. P (Exec site c r)) \<Longrightarrow> quiet P (exec_template sys site t)"
  unfolding exec_template_def by (intro quiet_bind quiet_lift quiet_exec)

lemma quiet_seq: "quiet P m \<Longrightarrow> quiet P k \<Longrightarrow> quiet P (seq m k)"
  unfolding seq_def by (rule quiet_bind)

lemma quiet_try: "quiet P m \<Longrightarrow> (\<And>x. quiet P (h x)) \<Longrightarrow> quiet P (try_catch m h)"
  unfolding quiet_def
  by (erule spec_try[where
        ?Q2.0="\<lambda>a ext r. list_all P ext \<and> (\<forall>n. r = Exited n \<longrightarrow> n = 1)"])
     simp_all

lemma quiet_cond: "quiet P m \<Longrightarrow> quiet P k \<Longrightarrow> quiet P (\<lambda>s. if c s then m s else k s)"
  unfolding quiet_def by (rule spec_cond)

lemma quiet_cond': "quiet P m \<Longrightarrow> quiet P k \<Longrightarrow> quiet P (\<lambda>s. (if c s then m else k) s)"
  unfolding quiet_def by (rule spec_cond')

lemma quiet_if: "quiet P m \<Longrightarrow> quiet P k \<Longrightarrow> quiet P (if c then m else k)"
  by simp

lemma quiet_mono: "quiet P m \<Longrightarrow> (\<And>x. P x \<Longrightarrow> P' x) \<Longrightarrow> quiet P' m"
  unfolding quiet_def by (erule spec_weaken) (auto simp: list_all_iff)

lemma quietD:
  "quiet P m \<Longrightarrow> m s = (r, s') \<Longrightarrow>
     \<exists>ext. trace s' = trace s @ ext \<and> list_all P ext \<and> (\<forall>n. r = Exited n \<longrightarrow> n = 1)"
  unfolding quiet_def by (drule specD) auto

lemmas quiet_intros = quiet_ret quiet_throw quiet_exit quiet_lift quiet_now quiet_log quiet_warn
  quiet_error quiet_exec quiet_log_template quiet_exec_template quiet_chdir quiet_mkdir
  quiet_copy quiet_bind quiet_seq quiet_try quiet_cond' quiet_cond quiet_if

subsection \<open>Summaries of the generation flow up to the locator\<close>

lemma script_failure_Done: "script_failure ext (Done a) = (\<not> list_ex failed_script ext)"
  by (simp add: script_failure_def)

lemma script_failure_Exited: "script_failure ext (Exited n) = False"
  by (simp add: script_failure_def)

lemma script_failure_single: "script_failure [Exec BuildScript c (Some m)] (Thrown m)"
  by (simp add: script_failure_def)

lemma script_failure_after:
  assumes "\<not> list_ex failed_script e1" and "script_failure e2 r"
  shows "script_failure (e1 @ e2) r"
proof (cases r)
  case (Done a)
  with assms show ?thesis
    by (simp add: script_failure_def)
next
  case (Thrown m)
  with assms(2) obtain pre c where
    "e2 = pre @ [Exec BuildScript c (Some m)]" "\<not> list_ex failed_script pre"
    by (auto simp: script_failure_def)
  with assms(1) have
    "e1 @ e2 = (e1 @ pre) @ [Exec BuildScript c (Some m)] \<and> \<not> list_ex failed_script (e1 @ pre)"
    by simp
  with Thrown show ?thesis
    unfolding script_failure_def by (simp only: result.case) blast
next
  case (Exited n)
  with assms(2) show ?thesis
    by (simp add: script_failure_def)
qed

lemma script_failure_thrown:
  "script_failure ext (Thrown x :: 'a result) \<Longrightarrow> script_failure ext (Thrown x :: 'b result)"
  by (simp add: script_failure_def)

lemma script_failure_cons:
  "\<not> failed_script x \<Longrightarrow> script_failure ext r \<Longrightarrow> script_failure (x # ext) r"
  using script_failure_after[of "[x]" ext r] by simp

lemma script_failure_last:
  assumes "script_failure ext (Thrown m)"
  shows "ext \<noteq> [] \<and> (\<exists>c. last ext = Exec BuildScript c (Some m))"
  using assms by (auto simp: script_failure_def)

lemma script_failure_fatal: "script_failure ext r \<Longrightarrow> script_fatal ext r"
  by (cases r) (auto simp: script_failure_def script_fatal_def)

lemma build_command_spec:
  "spec (seq (console_log msg) (seq (exec sys BuildCommand c) (ret True)))
        (\<lambda>ext r. list_all build_effect ext \<and> \<not> list_ex failed_script ext
           \<and> (\<forall>n. r \<noteq> Exited n))"
  by (intro spec_seq[where
          ?Q1.0="\<lambda>ext r. list_all build_effect ext \<and> \<not> list_ex failed_script ext
                   \<and> (\<forall>n. r \<noteq> Exited n)"
          and ?Q2.0="\<lambda>ext r. list_all build_effect ext \<and> \<not> list_ex failed_script ext
                   \<and> (\<forall>n. r \<noteq> Exited n)"]
         spec_exec spec_ret)
     (simp_all add: console_log_def spec_emit)

lemma build_script_spec:
  "spec (seq (console_log msg) (seq (exec sys BuildScript cmd) (ret True)))
        (\<lambda>ext r. list_all build_effect ext \<and> script_failure ext r)"
proof -
  have a: "spec (seq (exec sys BuildScript cmd) (ret True))
             (\<lambda>ext r. list_all build_effect ext \<and> script_failure ext r)"
    by (rule spec_seq[OF spec_exec_cases, where ?Q2.0="\<lambda>ext r. ext = [] \<and> r = Done True"])
       (auto simp: spec_ret script_failure_Done script_failure_single)
  show ?thesis
    by (rule spec_seq[OF _ a, where ?Q1.0="\<lambda>ext r. ext = [ConsoleLog msg] \<and> r = Done ()"])
       (auto simp: console_log_def spec_emit intro: script_failure_cons)
qed

lemma build_loop_spec:
  "spec (build_loop sys cs) (\<lambda>ext r. list_all build_effect ext \<and> script_failure ext r)"
proof (induction cs)
  case Nil
  show ?case
    by (simp add: spec_ret script_failure_def)
next
  case (Cons c cs)
  show ?case
  proof (cases "is_command c")
    case True
    show ?thesis
      unfolding build_loop.simps if_P[OF True]
      by (rule spec_try[OF build_command_spec Cons.IH])
         (auto simp: script_failure_Done intro: script_failure_after)
  next
    case False
    show ?thesis
      unfolding build_loop.simps if_not_P[OF False]
      by (rule spec_cond[OF build_script_spec Cons.IH])
  qed
qed

lemma build_discovery_spec:
  "spec (build_discovery sys) (\<lambda>ext r. list_all build_effect ext \<and> script_failure ext r)"
proof -
  have a: "spec (bind (build_loop sys buildScripts) (\<lambda>buildExecuted.
            if \<not> buildExecuted then
              console_warn
                ''No build script found. Looking for HTML files in common directories...''
            else ret ()))
          (\<lambda>ext r. list_all build_effect ext \<and> script_failure ext r)"
    by (rule spec_bind[OF build_loop_spec,
           where ?Q2.0="\<lambda>b ext r. list_all build_effect ext \<and> \<not> list_ex failed_script ext
                          \<and> r = Done ()"])
       (auto simp: console_warn_def spec_emit spec_ret script_failure_Done
          script_failure_Exited intro: script_failure_thrown)
  show ?thesis
    unfolding build_discovery_def
    by (rule spec_seq[OF _ a, where
          ?Q1.0="\<lambda>ext r. ext = [ConsoleLog ''Looking for build script...''] \<and> r = Done ()"])
       (auto simp: console_log_def spec_emit intro: script_failure_cons)
qed

lemma build_discovery_quiet: "quiet source_effect (build_discovery sys)"
  unfolding quiet_def
  by (rule spec_weaken[OF build_discovery_spec])
     (auto simp: list_all_iff script_failure_Exited build_effect_source)

lemma clone_source_quiet: "quiet source_effect (clone_source sys v tempDir)"
  unfolding clone_source_def by (intro quiet_intros) simp_all

lemma clone_source_scriptless: "quiet (\<lambda>x. \<not> failed_script x) (clone_source sys v tempDir)"
  unfolding clone_source_def by (intro quiet_intros) simp_all

lemma prepare_source_quiet: "quiet source_effect (prepare_source sys v)"
  unfolding prepare_source_def Let_def
  by (intro quiet_intros clone_source_quiet build_discovery_quiet)

text \<open>A failed script is fatal: stretches without a script before and after the build loop.\<close>

lemma script_fatal_clean: "\<not> list_ex failed_script ext \<Longrightarrow> script_fatal ext r"
  by (simp add: script_fatal_def)

lemma script_fatal_unfinished:
  "script_fatal ext r \<Longrightarrow> \<forall>m. r \<noteq> Thrown m \<Longrightarrow> \<not> list_ex failed_script ext"
  by (auto simp: script_fatal_def)

lemma script_fatal_after:
  assumes "\<not> list_ex failed_script e1" and "script_fatal e2 r"
  shows "script_fatal (e1 @ e2) r"
  unfolding script_fatal_def
proof
  assume "list_ex failed_script (e1 @ e2)"
  with assms(1) have "list_ex failed_script e2"
    by simp
  with assms(2) obtain pre c m where "r = Thrown m" "e2 = pre @ [Exec BuildScript c (Some m)]"
    unfolding script_fatal_def by blast
  then have "r = Thrown m \<and> e1 @ e2 = (e1 @ pre) @ [Exec BuildScript c (Some m)]"
    by simp
  then show "\<exists>pre c m. r = Thrown m \<and> e1 @ e2 = pre @ [Exec BuildScript c (Some m)]"
    by blast
qed

lemma script_fatal_thrown:
  "script_fatal ext (Thrown x :: 'a result) \<Longrightarrow> script_fatal ext (Thrown x :: 'b result)"
  by (simp add: script_fatal_def)

lemma scriptless_then_fatal:
  assumes "quiet (\<lambda>x. \<not> failed_script x) m" and "\<And>a. spec (f a) script_fatal"
  shows "spec (bind m f) script_fatal"
  by (rule spec_bind[OF assms(1)[unfolded quiet_def no_failed_script],
        where ?Q2.0="\<lambda>a. script_fatal"])
     (auto intro: assms(2) script_fatal_after script_fatal_clean)

lemma fatal_then_scriptless:
  assumes "spec m script_fatal" and "\<And>a. quiet (\<lambda>x. \<not> failed_script x) (f a)"
  shows "spec (bind m f) script_fatal"
  apply (rule spec_bind[OF assms(1), where
      ?Q2.0="\<lambda>a ext r. \<not> list_ex failed_script ext \<and> (\<forall>n. r = Exited n \<longrightarrow> n = 1)"])
  subgoal for a
    using assms(2)[of a] unfolding quiet_def no_failed_script .
  subgoal for e1 a e2 r
    by (rule script_fatal_clean) (auto dest: script_fatal_unfinished)
  subgoal for e1 x
    by (rule script_fatal_thrown)
  subgoal for e1 n
    by (rule script_fatal_clean) (auto dest: script_fatal_unfinished)
  done

lemma prepare_source_fatal: "spec (prepare_source sys v) script_fatal"
  unfolding prepare_source_def Let_def seq_def
  by (intro scriptless_then_fatal quiet_now clone_source_scriptless fatal_then_scriptless
      spec_weaken[OF build_discovery_spec] quiet_ret)
     (simp add: script_failure_fatal)

lemma locate_loop_skip:
  "yields_nothing sys s c \<Longrightarrow> locate_loop sys (c # cs) s = locate_loop sys cs s"
  by (auto simp: yields_nothing_def lift_def bind_def ret_def split: option.splits)

lemma locate_loop_first_match:
  assumes "\<forall>c\<in>set pre. yields_nothing sys s c"
    and "stat sys (path_resolve (cwd s) d) (world s) = Some n"
    and "findHtmlFiles d n = Inr files" and "files \<noteq> []"
  shows "locate_loop sys (pre @ d # post) s
           = (Done files, s\<lparr>trace := trace s @ [found_log files d]\<rparr>)"
  using assms
proof (induction pre)
  case Nil
  then show ?case
    by (simp add: lift_def bind_def ret_def seq_def console_log_def emit_def found_log_def)
next
  case (Cons c pre)
  then show ?case
    by (simp add: locate_loop_skip del: locate_loop.simps)
qed

lemma locate_loop_nothing:
  "\<forall>c\<in>set cs. yields_nothing sys s c \<Longrightarrow> locate_loop sys cs s = (Done [], s)"
proof (induction cs)
  case Nil
  then show ?case
    by (simp add: ret_def)
next
  case (Cons c cs)
  then show ?case
    by (simp add: locate_loop_skip del: locate_loop.simps)
qed

lemma locate_loop_quiet:
  assumes "\<And>m. P (ConsoleLog m)"
  shows "quiet P (locate_loop sys cs)"
proof (induction cs)
  case Nil
  show ?case
    by (simp add: quiet_ret)
next
  case (Cons c cs)
  have "quiet P (bind (lift (findHtmlFiles c n)) (\<lambda>files.
           if length files > 0 then
             seq (console_log (''Found '' @ show_nat (length files) @ '' HTML files in '' @ c))
                 (ret files)
           else locate_loop sys cs))" for n
    by (intro quiet_intros Cons.IH assms)
  then show ?case
    unfolding locate_loop.simps quiet_def spec_def
    using Cons.IH[unfolded quiet_def spec_def]
    by (auto split: option.splits)
qed

lemma artifact_locator_quiet:
  assumes "\<And>m. P (ConsoleLog m)" and "\<And>m. P (ConsoleError m)"
  shows "quiet P (artifact_locator sys)"
  unfolding artifact_locator_def
  by (intro quiet_intros locate_loop_quiet assms)

lemma source_calm: "quiet source_effect m \<Longrightarrow> quiet calm m"
  by (erule quiet_mono) (rule source_effect_calm)

subsection \<open>Summaries of the publisher, the remover and the handlers\<close>

lemma clone_preview_done:
  assumes "clone_preview sys e v previewDir s = (Done u, s1)"
  shows "\<exists>m cmd. clone_preview_log v = Inr m \<and> clone_preview_cmd e v previewDir = Inr cmd
           \<and> trace s1 = trace s @
               [ConsoleLog m, Exec ClonePreview cmd None,
                Chdir (path_resolve (cwd s) previewDir) True]"
proof -
  from assms[unfolded clone_preview_def] obtain sa sb where
    a: "log_template (clone_preview_log v) s = (Done (), sa)"
    and b: "exec_template sys ClonePreview (clone_preview_cmd e v previewDir) sa = (Done (), sb)"
    and c: "process_chdir sys previewDir sb = (Done u, s1)"
    by (blast dest: seq_Done)
  from log_template_Done[OF a] obtain m where
    m: "clone_preview_log v = Inr m" and sa: "sa = s\<lparr>trace := trace s @ [ConsoleLog m]\<rparr>"
    by blast
  from exec_template_Done[OF b] obtain cmd w where
    cmd: "clone_preview_cmd e v previewDir = Inr cmd"
    and sb: "sb = sa\<lparr>world := w, trace := trace sa @ [Exec ClonePreview cmd None]\<rparr>"
    by blast
  from chdir_Done[OF c] have
    s1: "s1 = sb\<lparr>cwd := path_resolve (cwd sb) previewDir,
                  trace := trace sb @ [Chdir (path_resolve (cwd sb) previewDir) True]\<rparr>"
    by blast
  have "trace s1 = trace s @
               [ConsoleLog m, Exec ClonePreview cmd None,
                Chdir (path_resolve (cwd s) previewDir) True]"
    unfolding s1 sb sa by simp
  with m cmd show ?thesis
    by blast
qed

lemma cleanup_clone_done:
  assumes "cleanup_clone sys e v s = (Done previewDir, s1)"
  shows "\<exists>m cmd. clone_preview_log v = Inr m \<and> clone_preview_cmd e v previewDir = Inr cmd
           \<and> trace s1 = trace s @
               [ConsoleLog m, Exec ClonePreview cmd None,
                Chdir (path_resolve (cwd s) previewDir) True]"
proof -
  from bind_Done[OF assms[unfolded cleanup_clone_def]] obtain t sa where
    n: "now sys s = (Done t, sa)"
    and k: "(let previewDir = path_join [''/tmp'', ''preview-repo-cleanup-'' @ show_nat t]
             in seq (clone_preview sys e v previewDir) (ret previewDir)) sa
              = (Done previewDir, s1)"
    by blast
  let ?d = "path_join [''/tmp'', ''preview-repo-cleanup-'' @ show_nat t]"
  from k obtain sb where c: "clone_preview sys e v ?d sa = (Done (), sb)"
    and rr: "ret ?d sb = (Done previewDir, s1)"
    unfolding Let_def by (blast dest: seq_Done)
  from rr have eq: "previewDir = ?d" "sb = s1"
    by (simp_all add: ret_def)
  from now_Done[OF n] have sa: "trace sa = trace s" "cwd sa = cwd s"
    by auto
  from clone_preview_done[OF c] show ?thesis
    unfolding eq[symmetric] sa .
qed

lemma clone_preview_quiet: "quiet late_effect (clone_preview sys e v previewDir)"
  unfolding clone_preview_def by (intro quiet_intros) simp_all

lemma cleanup_clone_quiet: "quiet late_effect (cleanup_clone sys e v)"
  unfolding cleanup_clone_def Let_def
  by (intro quiet_intros clone_preview_quiet)

lemma copy_loop_quiet: "quiet late_effect (copy_loop sys tempDir targetDir files)"
proof (induction files)
  case Nil
  show ?case
    by (simp add: quiet_ret)
next
  case (Cons f fs)
  have "quiet late_effect (seq (if c then mkdir_recursive sys d else ret ())
       (seq (copyFile sys f t) (seq (console_log m) (copy_loop sys tempDir targetDir fs))))"
    for c d t m
    by (intro quiet_intros Cons.IH) simp_all
  then show ?case
    unfolding copy_loop.simps Let_def quiet_def spec_def by simp
qed

lemma copy_files_quiet: "quiet late_effect (copy_files sys v tempDir previewDir files)"
  unfolding copy_files_def Let_def
  by (intro quiet_intros copy_loop_quiet) simp_all

lemma git_identity_quiet: "quiet late_effect (git_identity sys)"
  unfolding git_identity_def by (intro quiet_intros) simp_all

lemma commit_preview_quiet: "quiet late_effect (commit_preview sys v)"
  unfolding commit_preview_def tolerate_nothing_to_commit_def
  by (intro quiet_intros git_identity_quiet) simp_all

lemma publish_quiet: "quiet late_effect (publish sys e v tempDir previewDir files)"
  unfolding publish_def
  by (intro quiet_intros clone_preview_quiet copy_files_quiet commit_preview_quiet)

lemma remover_quiet: "quiet late_effect (remover sys v previewDir)"
  unfolding remover_def Let_def tolerate_nothing_to_commit_def
  by (intro quiet_intros git_identity_quiet) simp_all

lemma late_calm: "quiet late_effect m \<Longrightarrow> quiet calm m"
  by (erule quiet_mono) (rule late_effect_calm)

lemma late_scriptless: "quiet late_effect m \<Longrightarrow> quiet (\<lambda>x. \<not> failed_script x) m"
  by (erule quiet_mono) (rule late_effect_no_script)

lemma remove_scratch_scriptless: "quiet (\<lambda>x. \<not> failed_script x) (remove_scratch sys dirs)"
  unfolding remove_scratch_def by (intro quiet_intros) simp_all

lemma remove_scratch_spec:
  "spec (remove_scratch sys dirs)
     (\<lambda>ext r.
        (\<exists>d. r = Done () \<and> ext = [Chdir d True, Exec RemoveScratch (''rm -rf '' @ dirs) None])
        \<or> (\<exists>d m. r = Thrown m
              \<and> ext = [Chdir d True, Exec RemoveScratch (''rm -rf '' @ dirs) (Some m)])
        \<or> (\<exists>d m. r = Thrown m \<and> ext = [Chdir d False]))"
  unfolding remove_scratch_def
  apply (rule spec_seq[where
        ?Q1.0="\<lambda>ext r. (\<exists>d. r = Done () \<and> ext = [Chdir d True])
             \<or> (\<exists>d m. r = Thrown m \<and> ext = [Chdir d False])"
        and ?Q2.0="\<lambda>ext r.
             (r = Done () \<and> ext = [Exec RemoveScratch (''rm -rf '' @ dirs) None])
             \<or> (\<exists>m. r = Thrown m
                   \<and> ext = [Exec RemoveScratch (''rm -rf '' @ dirs) (Some m)])"])
      apply (rule spec_chdir; simp)
     apply (rule spec_exec; simp)
    apply auto
  done

lemma calm_then_clean:
  "quiet calm m \<Longrightarrow> spec (seq m (remove_scratch sys dirs)) finished"
  unfolding quiet_def
  apply (erule spec_seq[OF _ remove_scratch_spec])
    apply (auto simp: finished_def dest: calm_facts)
  done

lemma calm_then_finished:
  "quiet calm m \<Longrightarrow> (\<And>a. spec (f a) finished) \<Longrightarrow> spec (bind m f) finished"
  unfolding quiet_def
  by (erule spec_bind[where ?Q2.0="\<lambda>a. finished"]) (auto simp: finished_def dest: calm_facts)

lemma catch_spec:
  "spec (seq (console_error msg) (process_exit 1))
     (\<lambda>ext r. r = Exited 1 \<and> ext = [ConsoleError msg])"
  by (simp add: spec_def seq_def bind_def console_error_def emit_def process_exit_def)

lemma finished_catch:
  "spec m finished \<Longrightarrow>
   spec (try_catch m (\<lambda>error. seq (console_error (msg error)) (process_exit 1))) ended"
  apply (erule spec_try[where
        ?Q2.0="\<lambda>x ext r. r = Exited 1 \<and> ext = [ConsoleError (msg x)]"])
     apply (rule catch_spec)
    apply (auto simp: finished_def ended_def)
  done

lemma generation_spec: "spec (handlePreviewGeneration sys e v) ended"
  unfolding handlePreviewGeneration_def
  apply (rule finished_catch)
  apply (rule calm_then_finished[OF source_calm[OF prepare_source_quiet]])
  apply (case_tac a)
  apply (simp only: prod.case)
  apply (rule calm_then_finished[OF source_calm[OF artifact_locator_quiet]])
    apply simp
   apply simp
  apply (rule calm_then_clean[OF late_calm[OF publish_quiet]])
  done

lemma cleanup_spec: "spec (handleCleanup sys e v) ended"
  unfolding handleCleanup_def
  apply (rule finished_catch)
  apply (rule calm_then_finished[OF late_calm[OF cleanup_clone_quiet]])
  apply (rule calm_then_clean[OF late_calm[OF remover_quiet]])
  done

text \<open>
  In the generation flow a failed script is followed by the error log of the outer
  \<^verbatim>\<open>catch\<close> and nothing else, and the flow exits with code 1.
\<close>

lemma generation_body_fatal:
  "spec (bind (prepare_source sys v) (\<lambda>(tempDir, previewDir).
        bind (artifact_locator sys) (\<lambda>htmlFiles.
          seq (publish sys e v tempDir previewDir htmlFiles)
              (remove_scratch sys (tempDir @ '' '' @ previewDir))))) script_fatal"
  apply (rule fatal_then_scriptless[OF prepare_source_fatal])
  apply (case_tac a)
  apply (simp only: prod.case)
  apply (intro quiet_bind quiet_seq artifact_locator_quiet late_scriptless[OF publish_quiet]
      remove_scratch_scriptless)
   apply simp_all
  done

lemma generation_script_fatal:
  "spec (handlePreviewGeneration sys e v)
     (\<lambda>ext r. list_ex failed_script ext \<longrightarrow>
        r = Exited 1
        \<and> (\<exists>pre c m. ext = pre @ [Exec BuildScript c (Some m),
                                   ConsoleError (''Error generating preview: '' @ m)]))"
  unfolding handlePreviewGeneration_def
  apply (rule spec_try[OF generation_body_fatal, where
        ?Q2.0="\<lambda>x ext r. r = Exited 1
                 \<and> ext = [ConsoleError (''Error generating preview: '' @ x)]"])
     apply (rule catch_spec)
  subgoal for e1 x e2 r
    by (auto simp: script_fatal_def)
  subgoal for e1 a
    by (auto simp: script_fatal_def)
  subgoal for e1 n
    by (auto simp: script_fatal_def)
  done

lemma ended_facts:
  assumes "trace s' = trace s @ ext" "ended ext r"
  shows "(r = Done () \<or> r = Exited 1)
       \<and> (r = Done () \<longrightarrow> (\<exists>c. last (trace s') = Exec RemoveScratch c None))
       \<and> (r = Exited 1 \<longrightarrow> \<not> succeeded RemoveScratch (new_effects s s'))"
proof (intro conjI impI)
  from assms(2) show "r = Done () \<or> r = Exited 1"
    unfolding ended_def by blast
next
  assume "r = Done ()"
  with assms(2) obtain c where "ext \<noteq> []" "last ext = Exec RemoveScratch c None"
    unfolding ended_def finished_def by blast
  then have "last (trace s') = Exec RemoveScratch c None"
    unfolding assms(1) by simp
  then show "\<exists>c. last (trace s') = Exec RemoveScratch c None" ..
next
  assume "r = Exited 1"
  then have "r \<noteq> Done ()"
    by simp
  with assms(2) have "\<not> succeeded RemoveScratch ext"
    unfolding ended_def finished_def by blast
  then show "\<not> succeeded RemoveScratch (new_effects s s')"
    unfolding new_effects_append[OF assms(1)] .
qed

text \<open>The success path of a handler, read back step by step.\<close>

lemma remove_scratch_Done:
  assumes "remove_scratch sys dirs s = (Done u, s')"
  shows "trace s' = trace s @ [Chdir ''/'' True, Exec RemoveScratch (''rm -rf '' @ dirs) None]"
proof -
  from assms[unfolded remove_scratch_def] obtain sa where
    a: "process_chdir sys ''/'' s = (Done (), sa)"
    and b: "exec sys RemoveScratch (''rm -rf '' @ dirs) sa = (Done u, s')"
    by (blast dest: seq_Done)
  from chdir_Done[OF a] have sa: "trace sa = trace s @ [Chdir ''/'' True]"
    by (simp add: resolve_root)
  from exec_Done[OF b] have
    "trace s' = trace sa @ [Exec RemoveScratch (''rm -rf '' @ dirs) None]"
    by auto
  then show ?thesis
    unfolding sa by simp
qed

lemma catch_exit_Done:
  assumes "try_catch m (\<lambda>error. seq (console_error (msg error)) (process_exit 1)) s
             = (Done u, s')"
  shows "m s = (Done u, s')"
proof (cases "m s")
  case (Pair r s1)
  with assms show ?thesis
    by (cases r)
       (simp_all add: try_catch_def seq_def bind_def console_error_def emit_def process_exit_def)
qed

lemma clone_source_Done:
  assumes "clone_source sys v tempDir s = (Done u, s1)"
  shows "\<exists>ext cmd. clone_source_cmd v tempDir = Inr cmd \<and> trace s1 = trace s @ ext
           \<and> Exec CloneSource cmd None \<in> set ext"
proof -
  from assms[unfolded clone_source_def] obtain sa sb where
    a: "log_template (clone_source_log v) s = (Done (), sa)"
    and b: "exec_template sys CloneSource (clone_source_cmd v tempDir) sa = (Done (), sb)"
    and c: "seq (process_chdir sys tempDir)
              (exec_template sys Checkout (template [Lit ''git checkout '', Sub (commitSha v)]))
              sb = (Done u, s1)"
    by (blast dest: seq_Done)
  from log_template_Done[OF a] obtain m where sa: "trace sa = trace s @ [ConsoleLog m]"
    by auto
  from exec_template_Done[OF b] obtain cmd where
    cmd: "clone_source_cmd v tempDir = Inr cmd"
    and sb: "trace sb = trace sa @ [Exec CloneSource cmd None]"
    by auto
  have "quiet source_effect (seq (process_chdir sys tempDir)
          (exec_template sys Checkout (template [Lit ''git checkout '', Sub (commitSha v)])))"
    by (intro quiet_intros) simp_all
  from quietD[OF this c] obtain e3 where e3: "trace s1 = trace sb @ e3"
    by blast
  have "trace s1 = trace s @ ([ConsoleLog m, Exec CloneSource cmd None] @ e3)
        \<and> Exec CloneSource cmd None \<in> set ([ConsoleLog m, Exec CloneSource cmd None] @ e3)"
    unfolding e3 sb sa by simp
  with cmd show ?thesis
    by blast
qed

lemma prepare_source_Done:
  assumes "prepare_source sys v s = (Done (tempDir, previewDir), s1)"
  shows "\<exists>ext cmd. clone_source_cmd v tempDir = Inr cmd \<and> trace s1 = trace s @ ext
           \<and> Exec CloneSource cmd None \<in> set ext"
proof -
  from bind_Done[OF assms[unfolded prepare_source_def]] obtain t1 sa where
    n1: "now sys s = (Done t1, sa)"
    and k1: "bind (now sys) (\<lambda>t2.
       let tempDir = path_join [''/tmp'', ''preview-'' @ show_nat t1];
           previewDir = path_join [''/tmp'', ''preview-repo-'' @ show_nat t2]
       in seq (clone_source sys v tempDir)
         (seq (build_discovery sys)
              (ret (tempDir, previewDir)))) sa = (Done (tempDir, previewDir), s1)"
    by blast
  from bind_Done[OF k1] obtain t2 sb where
    n2: "now sys sa = (Done t2, sb)"
    and k2: "(let tempDir = path_join [''/tmp'', ''preview-'' @ show_nat t1];
           previewDir = path_join [''/tmp'', ''preview-repo-'' @ show_nat t2]
       in seq (clone_source sys v tempDir)
         (seq (build_discovery sys)
              (ret (tempDir, previewDir)))) sb = (Done (tempDir, previewDir), s1)"
    by blast
  let ?t = "path_join [''/tmp'', ''preview-'' @ show_nat t1]"
  let ?p = "path_join [''/tmp'', ''preview-repo-'' @ show_nat t2]"
  from k2 obtain sc sd where
    c: "clone_source sys v ?t sb = (Done (), sc)"
    and d: "build_discovery sys sc = (Done (), sd)"
    and r: "ret (?t, ?p) sd = (Done (tempDir, previewDir), s1)"
    unfolding Let_def by (blast dest: seq_Done)
  from r have eq: "tempDir = ?t" "sd = s1"
    by (simp_all add: ret_def)
  from now_Done[OF n1] now_Done[OF n2] have tr: "trace sb = trace s"
    by auto
  from clone_source_Done[OF c] obtain e1 cmd where
    cmd: "clone_source_cmd v ?t = Inr cmd"
    and e1: "trace sc = trace sb @ e1" "Exec CloneSource cmd None \<in> set e1"
    by blast
  from quietD[OF build_discovery_quiet d] obtain e2 where e2: "trace sd = trace sc @ e2"
    by blast
  have "trace s1 = trace s @ (e1 @ e2) \<and> Exec CloneSource cmd None \<in> set (e1 @ e2)"
    using e1 e2 tr eq(2) by auto
  with cmd show ?thesis
    unfolding eq(1) by blast
qed

lemma generation_Done:
  assumes "handlePreviewGeneration sys e v s = (Done (), s')"
  shows "\<exists>tempDir previewDir a b.
           clone_source_cmd v tempDir = Inr a
         \<and> Exec CloneSource a None \<in> set (new_effects s s')
         \<and> clone_preview_cmd e v previewDir = Inr b
         \<and> Exec ClonePreview b None \<in> set (new_effects s s')
         \<and> last (trace s')
             = Exec RemoveScratch (''rm -rf '' @ tempDir @ '' '' @ previewDir) None"
proof -
  from catch_exit_Done[OF assms[unfolded handlePreviewGeneration_def]]
  have "bind (prepare_source sys v) (\<lambda>(tempDir, previewDir).
        bind (artifact_locator sys) (\<lambda>htmlFiles.
          seq (publish sys e v tempDir previewDir htmlFiles)
              (remove_scratch sys (tempDir @ '' '' @ previewDir)))) s = (Done (), s')" .
  from bind_Done[OF this] obtain x s1 where
    p: "prepare_source sys v s = (Done x, s1)"
    and k: "(case x of (tempDir, previewDir) \<Rightarrow>
        bind (artifact_locator sys) (\<lambda>htmlFiles.
          seq (publish sys e v tempDir previewDir htmlFiles)
              (remove_scratch sys (tempDir @ '' '' @ previewDir)))) s1 = (Done (), s')"
    by blast
  obtain t d where x: "x = (t, d)"
    by (cases x)
  from k[unfolded x prod.case] obtain files s2 where
    l: "artifact_locator sys s1 = (Done files, s2)"
    and k2: "seq (publish sys e v t d files) (remove_scratch sys (t @ '' '' @ d)) s2 = (Done (), s')"
    by (blast dest: bind_Done)
  from k2 obtain s3 where
    pu: "publish sys e v t d files s2 = (Done (), s3)"
    and rm: "remove_scratch sys (t @ '' '' @ d) s3 = (Done (), s')"
    by (blast dest: seq_Done)
  from pu[unfolded publish_def] obtain s2a where
    cp: "clone_preview sys e v t2 s2 = (Done (), s2a)"
    and rest: "seq (copy_files sys v t d files) (commit_preview sys v) s2a = (Done (), s3)"
    if "t2 = d" for t2
    by (blast dest: seq_Done)
  from prepare_source_Done[OF p[unfolded x]] obtain e1 a where
    a: "clone_source_cmd v t = Inr a"
    and e1: "trace s1 = trace s @ e1" "Exec CloneSource a None \<in> set e1"
    by blast
  have "quiet source_effect (artifact_locator sys)"
    by (rule artifact_locator_quiet) simp_all
  from quietD[OF this l] obtain e2 where e2: "trace s2 = trace s1 @ e2"
    by blast
  from clone_preview_done[OF cp[OF refl]] obtain m b where
    b: "clone_preview_cmd e v d = Inr b"
    and e3: "trace s2a = trace s2 @ [ConsoleLog m, Exec ClonePreview b None,
                                     Chdir (path_resolve (cwd s2) d) True]"
    by blast
  from quietD[OF quiet_seq[OF copy_files_quiet commit_preview_quiet] rest[OF refl]]
  obtain e4 where e4: "trace s3 = trace s2a @ e4"
    by blast
  note e5 = remove_scratch_Done[OF rm]
  have n: "new_effects s s' = e1 @ e2 @ [ConsoleLog m, Exec ClonePreview b None,
             Chdir (path_resolve (cwd s2) d) True] @ e4 @
             [Chdir ''/'' True, Exec RemoveScratch (''rm -rf '' @ t @ '' '' @ d) None]"
    by (rule new_effects_append) (simp add: e5 e4 e3 e2 e1(1))
  have la: "last (trace s') = Exec RemoveScratch (''rm -rf '' @ t @ '' '' @ d) None"
    unfolding e5 by simp
  have "clone_source_cmd v t = Inr a
         \<and> Exec CloneSource a None \<in> set (new_effects s s')
         \<and> clone_preview_cmd e v d = Inr b
         \<and> Exec ClonePreview b None \<in> set (new_effects s s')
         \<and> last (trace s') = Exec RemoveScratch (''rm -rf '' @ t @ '' '' @ d) None"
    using a b e1(2) la unfolding n by simp
  then show ?thesis
    by blast
qed

lemma cleanup_Done:
  assumes "handleCleanup sys e v s = (Done (), s')"
  shows "\<exists>previewDir b.
           clone_preview_cmd e v previewDir = Inr b
         \<and> Exec ClonePreview b None \<in> set (new_effects s s')
         \<and> last (trace s') = Exec RemoveScratch (''rm -rf '' @ previewDir) None"
proof -
  from catch_exit_Done[OF assms[unfolded handleCleanup_def]]
  have "bind (cleanup_clone sys e v) (\<lambda>previewDir.
          seq (remover sys v previewDir) (remove_scratch sys previewDir)) s = (Done (), s')" .
  from bind_Done[OF this] obtain d s1 where
    c: "cleanup_clone sys e v s = (Done d, s1)"
    and k: "seq (remover sys v d) (remove_scratch sys d) s1 = (Done (), s')"
    by blast
  from k obtain s2 where
    r: "remover sys v d s1 = (Done (), s2)"
    and rm: "remove_scratch sys d s2 = (Done (), s')"
    by (blast dest: seq_Done)
  from cleanup_clone_done[OF c] obtain m b where
    b: "clone_preview_cmd e v d = Inr b"
    and e1: "trace s1 = trace s @ [ConsoleLog m, Exec ClonePreview b None,
                                   Chdir (path_resolve (cwd s) d) True]"
    by blast
  from quietD[OF remover_quiet r] obtain e2 where e2: "trace s2 = trace s1 @ e2"
    by blast
  note e3 = remove_scratch_Done[OF rm]
  have n: "new_effects s s'
             = [ConsoleLog m, Exec ClonePreview b None, Chdir (path_resolve (cwd s) d) True]
               @ e2 @ [Chdir ''/'' True, Exec RemoveScratch (''rm -rf '' @ d) None]"
    by (rule new_effects_append) (simp add: e3 e2 e1)
  have la: "last (trace s') = Exec RemoveScratch (''rm -rf '' @ d) None"
    unfolding e3 by simp
  have "clone_preview_cmd e v d = Inr b
         \<and> Exec ClonePreview b None \<in> set (new_effects s s')
         \<and> last (trace s') = Exec RemoveScratch (''rm -rf '' @ d) None"
    using b la unfolding n by simp
  then show ?thesis
    by blast
qed

subsection \<open>Runs of the examples\<close>

lemmas eval_defs =
  run_def main_def exit_code_def ex_cfg_def ex_env_def ex_event_def ex_head_def ex_sys_def
  ex_vars_def ex_start_def
  array_includes_def tpl_def tpl_str_def previewToken_def digit_char_def
  handlePreviewGeneration_def handleCleanup_def prepare_source_def clone_source_def
  clone_source_log_def clone_source_cmd_def log_template_def exec_template_def
  build_discovery_def buildScripts_def htmlDirs_def is_command_def script_cmd_def
  starts_with_def endsWith_def
  artifact_locator_def publish_def clone_preview_def clone_preview_log_def
  clone_preview_cmd_def copy_files_def commit_preview_def
  git_identity_def tolerate_nothing_to_commit_def remove_scratch_def cleanup_clone_def
  remover_def
  seq_def bind_def ret_def throw_def process_exit_def lift_def emit_def
  console_log_def console_error_def console_warn_def try_catch_def
  exec_def error_message_def existsSync_def process_chdir_def mkdir_recursive_def copyFile_def
  now_def
  path_join_def path_normalize_def path_resolve_def path_relative_def path_dirname_def
  is_absolute_def Let_def

text \<open>A build script that exists and fails.\<close>

lemma ex_script_failure_run:
  "run ex_cfg ex_env (ex_event ''opened'' ''docs-site'' ex_head)
     (ex_sys ex_bad_script ex_script_tree) ''/'' 0
   = (1, \<lparr>world = 3, cwd = ''/tmp/preview-1000'',
        trace =
          [ConsoleLog ''Processing PR #42 from acme/docs-site (action: opened)'',
           ConsoleLog ''Cloning acme/docs-site at commit abc1234def...'',
           Exec CloneSource
            ''git clone https://github.com/acme/docs-site.git /tmp/preview-1000'' None,
           Chdir ''/tmp/preview-1000'' True,
           Exec Checkout ''git checkout abc1234def'' None,
           ConsoleLog ''Looking for build script...'',
           ConsoleLog ''Executing: build-docs.sh'',
           Exec BuildScript ''chmod +x build-docs.sh && ./build-docs.sh''
            (Some ''Command failed: chmod +x build-docs.sh && ./build-docs.sh''),
           ConsoleError
            (''Error generating preview: ''
              @ ''Command failed: chmod +x build-docs.sh && ./build-docs.sh'')]\<rparr>)"
  by (simp add: eval_defs ex_script_tree_def ex_bad_script_def)

lemma ex_script_failure:
  "handlePreviewGeneration (ex_sys ex_bad_script ex_script_tree) ex_env ex_vars ex_start
   = (Exited 1, \<lparr>world = 3, cwd = ''/tmp/preview-1000'',
        trace =
          [ConsoleLog ''Cloning acme/docs-site at commit abc1234def...'',
           Exec CloneSource
            ''git clone https://github.com/acme/docs-site.git /tmp/preview-1000'' None,
           Chdir ''/tmp/preview-1000'' True,
           Exec Checkout ''git checkout abc1234def'' None,
           ConsoleLog ''Looking for build script...'',
           ConsoleLog ''Executing: build-docs.sh'',
           Exec BuildScript ''chmod +x build-docs.sh && ./build-docs.sh''
            (Some ''Command failed: chmod +x build-docs.sh && ./build-docs.sh''),
           ConsoleError
            (''Error generating preview: ''
              @ ''Command failed: chmod +x build-docs.sh && ./build-docs.sh'')]\<rparr>)"
  by (simp add: eval_defs ex_script_tree_def ex_bad_script_def)

text \<open>A generation whose build leaves \<^verbatim>\<open>dist/index.html\<close>, every command succeeding.\<close>

lemma ex_generation_run:
  "run ex_cfg ex_env (ex_event ''opened'' ''docs-site'' ex_head) (ex_sys [] ex_built) ''/'' 0
   = (0, \<lparr>world = 13, cwd = ''/'',
        trace =
          [ConsoleLog ''Processing PR #42 from acme/docs-site (action: opened)'',
           ConsoleLog ''Cloning acme/docs-site at commit abc1234def...'',
           Exec CloneSource
            ''git clone https://github.com/acme/docs-site.git /tmp/preview-1000'' None,
           Chdir ''/tmp/preview-1000'' True,
           Exec Checkout ''git checkout abc1234def'' None,
           ConsoleLog ''Looking for build script...'',
           ConsoleLog ''Trying: npm run build-docs'',
           Exec BuildCommand ''npm run build-docs'' None,
           ConsoleLog ''Found 1 HTML files in dist'',
           ConsoleLog ''Cloning preview repository acme/previews...'',
           Exec ClonePreview
            ''git clone https://tok@github.com/acme/previews.git /tmp/preview-repo-1000'' None,
           Chdir ''/tmp/preview-repo-1000'' True,
           ConsoleLog ''Copying HTML files to docs-site/42...'',
           Mkdir ''/tmp/preview-repo-1000/docs-site/42'' True,
           Mkdir ''/tmp/preview-repo-1000/docs-site/preview-repo-1000/dist'' True,
           CopyFile ''/tmp/preview-repo-1000/dist/index.html''
            ''/tmp/preview-repo-1000/docs-site/preview-repo-1000/dist/index.html'' True,
           ConsoleLog ''Copied: ../preview-repo-1000/dist/index.html'',
           ConsoleLog ''Committing changes...'',
           Exec GitConfig ''git config user.name \"GitHub Actions\"'' None,
           Exec GitConfig ''git config user.email \"actions@github.com\"'' None,
           Exec GitAdd ''git add docs-site/42'' None,
           Exec GitCommit ''git commit -m \"Update preview for docs-site#42 (abc1234)\"'' None,
           Exec GitPush ''git push origin main'' None,
           ConsoleLog ''Preview updated successfully!'',
           Chdir ''/'' True,
           Exec RemoveScratch ''rm -rf /tmp/preview-1000 /tmp/preview-repo-1000'' None]\<rparr>)"
  by (simp add: eval_defs ex_built_def)

text \<open>
  The same generation when the commit finds nothing to commit: \<^verbatim>\<open>git commit\<close> ends
  with status 1.
\<close>

lemma ex_unchanged_generation_run:
  "run ex_cfg ex_env (ex_event ''opened'' ''docs-site'' ex_head) (ex_sys ex_unchanged ex_built)
     ''/'' 0
   = (1, \<lparr>world = 11, cwd = ''/tmp/preview-repo-1000'',
        trace =
          [ConsoleLog ''Processing PR #42 from acme/docs-site (action: opened)'',
           ConsoleLog ''Cloning acme/docs-site at commit abc1234def...'',
           Exec CloneSource
            ''git clone https://github.com/acme/docs-site.git /tmp/preview-1000'' None,
           Chdir ''/tmp/preview-1000'' True,
           Exec Checkout ''git checkout abc1234def'' None,
           ConsoleLog ''Looking for build script...'',
           ConsoleLog ''Trying: npm run build-docs'',
           Exec BuildCommand ''npm run build-docs'' None,
           ConsoleLog ''Found 1 HTML files in dist'',
           ConsoleLog ''Cloning preview repository acme/previews...'',
           Exec ClonePreview
            ''git clone https://tok@github.com/acme/previews.git /tmp/preview-repo-1000'' None,
           Chdir ''/tmp/preview-repo-1000'' True,
           ConsoleLog ''Copying HTML files to docs-site/42...'',
           Mkdir ''/tmp/preview-repo-1000/docs-site/42'' True,
           Mkdir ''/tmp/preview-repo-1000/docs-site/preview-repo-1000/dist'' True,
           CopyFile ''/tmp/preview-repo-1000/dist/index.html''
            ''/tmp/preview-repo-1000/docs-site/preview-repo-1000/dist/index.html'' True,
           ConsoleLog ''Copied: ../preview-repo-1000/dist/index.html'',
           ConsoleLog ''Committing changes...'',
           Exec GitConfig ''git config user.name \"GitHub Actions\"'' None,
           Exec GitConfig ''git config user.email \"actions@github.com\"'' None,
           Exec GitAdd ''git add docs-site/42'' None,
           Exec GitCommit ''git commit -m \"Update preview for docs-site#42 (abc1234)\"''
            (Some (''Command failed: ''
                    @ ''git commit -m \"Update preview for docs-site#42 (abc1234)\"'')),
           ConsoleError
            (''Error generating preview: Command failed: ''
              @ ''git commit -m \"Update preview for docs-site#42 (abc1234)\"'')]\<rparr>)"
  by (simp add: eval_defs ex_built_def ex_unchanged_def)

text \<open>A cleanup whose commit finds nothing to commit.\<close>

lemma ex_unchanged_cleanup_run:
  "run ex_cfg ex_env (ex_event ''closed'' ''docs-site'' ex_head)
     (ex_sys ex_unchanged ex_published_tree) ''/'' 0
   = (1, \<lparr>world = 6, cwd = ''/tmp/preview-repo-cleanup-1000'',
        trace =
          [ConsoleLog ''Processing PR #42 from acme/docs-site (action: closed)'',
           ConsoleLog ''Cloning preview repository acme/previews...'',
           Exec ClonePreview
            ''git clone https://tok@github.com/acme/previews.git /tmp/preview-repo-cleanup-1000''
            None,
           Chdir ''/tmp/preview-repo-cleanup-1000'' True,
           ConsoleLog ''Deleting docs-site/42...'',
           Exec DeletePreviewPath ''rm -rf /tmp/preview-repo-cleanup-1000/docs-site/42'' None,
           ConsoleLog ''Committing deletion...'',
           Exec GitConfig ''git config user.name \"GitHub Actions\"'' None,
           Exec GitConfig ''git config user.email \"actions@github.com\"'' None,
           Exec GitAdd ''git add -A'' None,
           Exec GitCommit ''git commit -m \"Remove preview for docs-site#42\"''
            (Some ''Command failed: git commit -m \"Remove preview for docs-site#42\"''),
           ConsoleError
            (''Error during cleanup: Command failed: ''
              @ ''git commit -m \"Remove preview for docs-site#42\"'')]\<rparr>)"
  by (simp add: eval_defs ex_published_tree_def ex_unchanged_def)

text \<open>A generation whose checkout fails after the clone.\<close>

lemma ex_checkout_failure_run:
  "run ex_cfg ex_env (ex_event ''opened'' ''docs-site'' ex_head)
     (ex_sys ex_bad_checkout Map.empty) ''/'' 0
   = (1, \<lparr>world = 2, cwd = ''/tmp/preview-1000'',
        trace =
          [ConsoleLog ''Processing PR #42 from acme/docs-site (action: opened)'',
           ConsoleLog ''Cloning acme/docs-site at commit abc1234def...'',
           Exec CloneSource
            ''git clone https://github.com/acme/docs-site.git /tmp/preview-1000'' None,
           Chdir ''/tmp/preview-1000'' True,
           Exec Checkout ''git checkout abc1234def''
            (Some ''Command failed: git checkout abc1234def''),
           ConsoleError
            ''Error generating preview: Command failed: git checkout abc1234def'']\<rparr>)"
  by (simp add: eval_defs ex_bad_checkout_def)

text \<open>A build discovery in which no script exists and every command fails.\<close>

lemma ex_exhausted_build:
  "build_discovery (ex_sys ex_no_build Map.empty) ex_start
   = (Done (),
      \<lparr>world = 3, cwd = ''/'',
       trace =
         [ConsoleLog ''Looking for build script...'',
          ConsoleLog ''Trying: npm run build-docs'',
          Exec BuildCommand ''npm run build-docs'' (Some ''Command failed: npm run build-docs''),
          ConsoleLog ''Trying: npm run generate-docs'',
          Exec BuildCommand ''npm run generate-docs''
           (Some ''Command failed: npm run generate-docs''),
          ConsoleLog ''Trying: python generate_docs.py'',
          Exec BuildCommand ''python generate_docs.py''
           (Some ''Command failed: python generate_docs.py''),
          ConsoleWarn
           ''No build script found. Looking for HTML files in common directories...'']\<rparr>)"
  by (simp add: eval_defs ex_no_build_def)

text \<open>Steps 1 and 2 in an empty source tree, and the cleanup of a preview that was never made.\<close>

lemma ex_prepare_source:
  "prepare_source (ex_sys [] Map.empty) ex_vars ex_start
   = (Done (''/tmp/preview-1000'', ''/tmp/preview-repo-1000''),
      \<lparr>world = 3, cwd = ''/tmp/preview-1000'',
       trace =
         [ConsoleLog ''Cloning acme/docs-site at commit abc1234def...'',
          Exec CloneSource
           ''git clone https://github.com/acme/docs-site.git /tmp/preview-1000'' None,
          Chdir ''/tmp/preview-1000'' True,
          Exec Checkout ''git checkout abc1234def'' None,
          ConsoleLog ''Looking for build script...'',
          ConsoleLog ''Trying: npm run build-docs'',
          Exec BuildCommand ''npm run build-docs'' None]\<rparr>)"
  by (simp add: eval_defs)

lemma ex_cleanup_clone:
  "cleanup_clone (ex_sys [] Map.empty) ex_env ex_vars ex_start
   = (Done ''/tmp/preview-repo-cleanup-1000'',
      \<lparr>world = 1, cwd = ''/tmp/preview-repo-cleanup-1000'',
       trace =
         [ConsoleLog ''Cloning preview repository acme/previews...'',
          Exec ClonePreview
           ''git clone https://tok@github.com/acme/previews.git /tmp/preview-repo-cleanup-1000''
           None,
          Chdir ''/tmp/preview-repo-cleanup-1000'' True]\<rparr>)"
  by (simp add: eval_defs)

lemma ex_cleanup_noop:
  "handleCleanup (ex_sys [] Map.empty) ex_env ex_vars ex_start
   = (Done (),
      \<lparr>world = 2, cwd = ''/'',
       trace =
         [ConsoleLog ''Cloning preview repository acme/previews...'',
          Exec ClonePreview
           ''git clone https://tok@github.com/acme/previews.git /tmp/preview-repo-cleanup-1000''
           None,
          Chdir ''/tmp/preview-repo-cleanup-1000'' True,
          ConsoleLog ''Preview folder docs-site/42 does not exist. Nothing to clean up.'',
          Chdir ''/'' True,
          Exec RemoveScratch ''rm -rf /tmp/preview-repo-cleanup-1000'' None]\<rparr>)"
  by (simp add: eval_defs)

text \<open>A generation in an empty source tree.\<close>

lemma ex_generation_no_artifacts:
  "handlePreviewGeneration (ex_sys [] Map.empty) ex_env ex_vars ex_start
   = (Exited 1,
      \<lparr>world = 3, cwd = ''/tmp/preview-1000'',
       trace =
         [ConsoleLog ''Cloning acme/docs-site at commit abc1234def...'',
          Exec CloneSource
           ''git clone https://github.com/acme/docs-site.git /tmp/preview-1000'' None,
          Chdir ''/tmp/preview-1000'' True,
          Exec Checkout ''git checkout abc1234def'' None,
          ConsoleLog ''Looking for build script...'',
          ConsoleLog ''Trying: npm run build-docs'',
          Exec BuildCommand ''npm run build-docs'' None,
          ConsoleError
           ''No HTML files found. Build script may not have generated output.'']\<rparr>)"
  by (simp add: eval_defs)

text \<open>The working tree in \<^verbatim>\<open>/w\<close>.\<close>

lemma ex_dist:
  "yields_nothing (ex_sys [] ex_tree) \<lparr>world = 0, cwd = ''/w'', trace = []\<rparr> ''dist''"
  by (simp add: yields_nothing_def ex_sys_def ex_tree_def path_resolve_def is_absolute_def
      endsWith_def starts_with_def)

lemma ex_output:
  "stat (ex_sys [] ex_tree)
     (path_resolve (cwd \<lparr>world = 0::nat, cwd = ''/w'', trace = []\<rparr>) ''output'')
     (world \<lparr>world = 0::nat, cwd = ''/w'', trace = []\<rparr>)
   = Some (Dir [(''a.html'', File), (''sub'', Dir [(''b.html'', File)]), (''c.html'', File)])"
  by (simp add: ex_sys_def ex_tree_def path_resolve_def is_absolute_def)

lemma ex_walk:
  "findHtmlFiles ''output''
     (Dir [(''a.html'', File), (''sub'', Dir [(''b.html'', File)]), (''c.html'', File)])
   = Inr [''output/a.html'', ''output/sub/b.html'', ''output/c.html'']"
  by (simp add: endsWith_def starts_with_def path_join_def path_normalize_def is_absolute_def)

subsection \<open>Build discovery\<close>

text \<open>
  C1, as the claim states it, fails: a script candidate that exists and whose execution fails
  is not followed by the next candidate. In the run below \<^verbatim>\<open>build-docs.sh\<close> exists and
  fails; no other candidate is tried, and the process ends with exit code 1.
\<close>

theorem failing_script_ends_flow_counterexample:
  "ex_script_tree ''/tmp/preview-1000/build-docs.sh'' = Some File
   \<and> fst (run ex_cfg ex_env (ex_event ''opened'' ''docs-site'' ex_head)
            (ex_sys ex_bad_script ex_script_tree) ''/'' 0) = 1
   \<and> attempted BuildScript
        (trace (snd (run ex_cfg ex_env (ex_event ''opened'' ''docs-site'' ex_head)
                       (ex_sys ex_bad_script ex_script_tree) ''/'' 0)))
   \<and> \<not> attempted BuildCommand
        (trace (snd (run ex_cfg ex_env (ex_event ''opened'' ''docs-site'' ex_head)
                       (ex_sys ex_bad_script ex_script_tree) ''/'' 0)))"
  by (simp add: ex_script_failure_run ex_script_tree_def)

text \<open>
  C1, amended, for every system, state and list of candidates.

  \<^item> A command candidate (\<^verbatim>\<open>npm run\<close>, \<^verbatim>\<open>python\<close>) whose execution fails is recovered
    locally: the loop goes on with the next candidate, from the state the failed command
    left.
  \<^item> A script candidate whose file does not exist is not attempted: the loop goes on with
    the next candidate from the same state.
  \<^item> A script candidate whose file exists and whose execution fails is not recovered: the
    loop throws the error of the script at once, whatever candidates follow.
  \<^item> Build discovery never ends the process itself, and it ends normally, so that the flow
    proceeds to the artifact locator, in every case but that one: when it throws, its last
    effect is the failed script and the error thrown is the error of that script.
  \<^item> In every run of the generation flow in which a script has failed, the flow exits with
    code 1, and the failed script is followed by the error log of the flow and by nothing
    else.
\<close>

theorem build_discovery_failure_containment:
  "(is_command c \<longrightarrow> execSync sys (cwd s) c (world s) = (out, w') \<longrightarrow>
    error_message c out = Some m \<longrightarrow>
      build_loop sys (c # cs) s
        = build_loop sys cs
            (s\<lparr>world := w',
               trace := trace s @ [ConsoleLog (''Trying: '' @ c), Exec BuildCommand c (Some m)]\<rparr>))
   \<and> (\<not> is_command c \<longrightarrow> \<not> existsSync sys c s \<longrightarrow>
        build_loop sys (c # cs) s = build_loop sys cs s)
   \<and> (\<not> is_command c \<longrightarrow> existsSync sys c s \<longrightarrow>
      execSync sys (cwd s) (script_cmd c) (world s) = (out, w') \<longrightarrow>
      error_message (script_cmd c) out = Some m \<longrightarrow>
        build_loop sys (c # cs) s
          = (Thrown m,
             s\<lparr>world := w',
               trace := trace s @ [ConsoleLog (''Executing: '' @ c),
                                   Exec BuildScript (script_cmd c) (Some m)]\<rparr>))
   \<and> (build_discovery sys s = (r, s') \<longrightarrow>
        r = Done ()
        \<or> (\<exists>x script. r = Thrown x \<and> last (trace s') = Exec BuildScript script (Some x)))
   \<and> (handlePreviewGeneration sys e v s = (q, t') \<longrightarrow>
      list_ex failed_script (new_effects s t') \<longrightarrow>
        q = Exited 1
        \<and> (\<exists>pre script x.
              new_effects s t'
                = pre @ [Exec BuildScript script (Some x),
                         ConsoleError (''Error generating preview: '' @ x)]))"
proof (intro conjI impI)
  assume "is_command c" "execSync sys (cwd s) c (world s) = (out, w')"
    "error_message c out = Some m"
  then show "build_loop sys (c # cs) s
        = build_loop sys cs
            (s\<lparr>world := w',
               trace := trace s @ [ConsoleLog (''Trying: '' @ c), Exec BuildCommand c (Some m)]\<rparr>)"
    by (simp add: try_catch_def seq_def bind_def console_log_def emit_def exec_def)
next
  assume "\<not> is_command c" "\<not> existsSync sys c s"
  then show "build_loop sys (c # cs) s = build_loop sys cs s"
    by simp
next
  assume "\<not> is_command c" "existsSync sys c s"
    "execSync sys (cwd s) (script_cmd c) (world s) = (out, w')"
    "error_message (script_cmd c) out = Some m"
  then show "build_loop sys (c # cs) s
          = (Thrown m,
             s\<lparr>world := w',
               trace := trace s @ [ConsoleLog (''Executing: '' @ c),
                                   Exec BuildScript (script_cmd c) (Some m)]\<rparr>)"
    by (simp add: seq_def bind_def console_log_def emit_def exec_def)
next
  assume "build_discovery sys s = (r, s')"
  from specD[OF build_discovery_spec this] obtain ext where
    ext: "trace s' = trace s @ ext" "script_failure ext r"
    by blast
  show "r = Done ()
        \<or> (\<exists>x script. r = Thrown x \<and> last (trace s') = Exec BuildScript script (Some x))"
  proof (cases r)
    case (Done u)
    then show ?thesis
      by simp
  next
    case (Thrown x)
    from script_failure_last[OF ext(2)[unfolded Thrown]] obtain script where
      "ext \<noteq> []" "last ext = Exec BuildScript script (Some x)"
      by blast
    then have "last (trace s') = Exec BuildScript script (Some x)"
      unfolding ext(1) by simp
    with Thrown show ?thesis
      by blast
  next
    case (Exited n)
    with ext(2) show ?thesis
      by (simp add: script_failure_Exited)
  qed
next
  assume g: "handlePreviewGeneration sys e v s = (q, t')"
    and f: "list_ex failed_script (new_effects s t')"
  from specD[OF generation_script_fatal g] obtain ext where
    ext: "trace t' = trace s @ ext"
    and fatal: "list_ex failed_script ext \<longrightarrow>
        q = Exited 1
        \<and> (\<exists>pre c m. ext = pre @ [Exec BuildScript c (Some m),
                                   ConsoleError (''Error generating preview: '' @ m)])"
    by blast
  note n = new_effects_append[OF ext]
  from f fatal show "q = Exited 1"
    unfolding n by blast
  from f fatal show "\<exists>pre script x.
              new_effects s t'
                = pre @ [Exec BuildScript script (Some x),
                         ConsoleError (''Error generating preview: '' @ x)]"
    unfolding n by blast
qed

theorem build_discovery_failure_containment_witness:
  "is_command ''npm run build-docs''
   \<and> execSync (ex_sys ex_no_build Map.empty) (cwd ex_start) ''npm run build-docs''
        (world ex_start) = (Failed, 1)
   \<and> build_loop (ex_sys ex_no_build Map.empty) [''npm run build-docs''] ex_start
       = build_loop (ex_sys ex_no_build Map.empty) []
           (ex_start\<lparr>world := 1,
              trace := trace ex_start @
                [ConsoleLog (''Trying: '' @ ''npm run build-docs''),
                 Exec BuildCommand ''npm run build-docs''
                   (Some ''Command failed: npm run build-docs'')]\<rparr>)
   \<and> \<not> is_command ''build-docs.sh''
   \<and> \<not> existsSync (ex_sys [] Map.empty) ''build-docs.sh'' ex_start
   \<and> build_loop (ex_sys [] Map.empty) [''build-docs.sh'', ''npm run build-docs''] ex_start
       = build_loop (ex_sys [] Map.empty) [''npm run build-docs''] ex_start
   \<and> existsSync (ex_sys ex_bad_script ex_script_tree) ''build-docs.sh''
        \<lparr>world = 0, cwd = ''/tmp/preview-1000'', trace = []\<rparr>
   \<and> build_loop (ex_sys ex_bad_script ex_script_tree) [''build-docs.sh'', ''npm run build-docs'']
        \<lparr>world = 0, cwd = ''/tmp/preview-1000'', trace = []\<rparr>
       = (Thrown ''Command failed: chmod +x build-docs.sh && ./build-docs.sh'',
          \<lparr>world = 1, cwd = ''/tmp/preview-1000'',
           trace = [ConsoleLog ''Executing: build-docs.sh'',
                    Exec BuildScript ''chmod +x build-docs.sh && ./build-docs.sh''
                      (Some ''Command failed: chmod +x build-docs.sh && ./build-docs.sh'')]\<rparr>)
   \<and> fst (build_discovery (ex_sys ex_no_build Map.empty) ex_start) = Done ()
   \<and> list_ex failed_script
        (new_effects ex_start
           (snd (handlePreviewGeneration (ex_sys ex_bad_script ex_script_tree) ex_env ex_vars
                   ex_start)))
   \<and> fst (handlePreviewGeneration (ex_sys ex_bad_script ex_script_tree) ex_env ex_vars ex_start)
       = Exited 1
   \<and> (\<exists>pre script x.
         new_effects ex_start
           (snd (handlePreviewGeneration (ex_sys ex_bad_script ex_script_tree) ex_env ex_vars
                   ex_start))
           = pre @ [Exec BuildScript script (Some x),
                    ConsoleError (''Error generating preview: '' @ x)])"
proof -
  let ?npm = "''npm run build-docs''"
  let ?sh = "''build-docs.sh''"
  let ?s3 = "\<lparr>world = 0::nat, cwd = ''/tmp/preview-1000'', trace = []\<rparr>"
  let ?g = "handlePreviewGeneration (ex_sys ex_bad_script ex_script_tree) ex_env ex_vars ex_start"
  have a1: "is_command ?npm"
    by (simp add: is_command_def starts_with_def)
  have a2: "execSync (ex_sys ex_no_build Map.empty) (cwd ex_start) ?npm (world ex_start)
              = (Failed, 1)"
    by (simp add: ex_sys_def ex_no_build_def ex_start_def)
  have a3: "error_message ?npm Failed = Some ''Command failed: npm run build-docs''"
    by (simp add: error_message_def)
  have b1: "\<not> is_command ?sh"
    by (simp add: is_command_def starts_with_def)
  have b2: "\<not> existsSync (ex_sys [] Map.empty) ?sh ex_start"
    by (simp add: existsSync_def ex_sys_def)
  have c2: "existsSync (ex_sys ex_bad_script ex_script_tree) ?sh ?s3"
    by (simp add: existsSync_def ex_sys_def ex_script_tree_def path_resolve_def path_normalize_def
        is_absolute_def)
  have c3: "execSync (ex_sys ex_bad_script ex_script_tree) (cwd ?s3) (script_cmd ?sh) (world ?s3)
              = (Failed, 1)"
    by (simp add: ex_sys_def ex_bad_script_def script_cmd_def)
  have c4: "error_message (script_cmd ?sh) Failed
              = Some ''Command failed: chmod +x build-docs.sh && ./build-docs.sh''"
    by (simp add: error_message_def script_cmd_def)
  have d: "build_discovery (ex_sys ex_no_build Map.empty) ex_start
             = (Done (), snd (build_discovery (ex_sys ex_no_build Map.empty) ex_start))"
    by (simp add: ex_exhausted_build)
  have d1: "fst (build_discovery (ex_sys ex_no_build Map.empty) ex_start) = Done ()"
    by (simp add: ex_exhausted_build)
  have g: "?g = (Exited 1, snd ?g)"
    by (simp add: ex_script_failure)
  have e: "trace ex_start = []"
    by (simp add: ex_start_def)
  have g1: "list_ex failed_script (new_effects ex_start (snd ?g))"
    by (simp add: ex_script_failure new_effects_def e)
  note t1 = build_discovery_failure_containment
    [where c = ?npm and sys = "ex_sys ex_no_build Map.empty" and s = ex_start and out = Failed
       and w' = 1 and m = "''Command failed: npm run build-docs''" and cs = "[]",
     THEN conjunct1, rule_format, OF a1 a2 a3]
  note t2 = build_discovery_failure_containment
    [where c = ?sh and sys = "ex_sys [] Map.empty" and s = ex_start and cs = "[?npm]",
     THEN conjunct2, THEN conjunct1, rule_format, OF b1 b2]
  note t3 = build_discovery_failure_containment
    [where c = ?sh and sys = "ex_sys ex_bad_script ex_script_tree" and s = ?s3 and out = Failed
       and w' = 1 and m = "''Command failed: chmod +x build-docs.sh && ./build-docs.sh''"
       and cs = "[?npm]",
     THEN conjunct2, THEN conjunct2, THEN conjunct1, rule_format, OF b1 c2 c3 c4]
  note t5 = build_discovery_failure_containment
    [where sys = "ex_sys ex_bad_script ex_script_tree" and s = ex_start and e = ex_env
       and v = ex_vars and q = "Exited 1" and t' = "snd ?g",
     THEN conjunct2, THEN conjunct2, THEN conjunct2, THEN conjunct2, rule_format, OF g g1]
  have t1': "build_loop (ex_sys ex_no_build Map.empty) [?npm] ex_start
       = build_loop (ex_sys ex_no_build Map.empty) []
           (ex_start\<lparr>world := 1,
              trace := trace ex_start @
                [ConsoleLog (''Trying: '' @ ?npm),
                 Exec BuildCommand ?npm (Some ''Command failed: npm run build-docs'')]\<rparr>)"
    using t1 .
  have t3': "build_loop (ex_sys ex_bad_script ex_script_tree) [?sh, ?npm] ?s3
       = (Thrown ''Command failed: chmod +x build-docs.sh && ./build-docs.sh'',
          \<lparr>world = 1, cwd = ''/tmp/preview-1000'',
           trace = [ConsoleLog ''Executing: build-docs.sh'',
                    Exec BuildScript ''chmod +x build-docs.sh && ./build-docs.sh''
                      (Some ''Command failed: chmod +x build-docs.sh && ./build-docs.sh'')]\<rparr>)"
    unfolding t3 by (simp add: script_cmd_def)
  have g2: "fst ?g = Exited 1"
    by (simp add: ex_script_failure)
  note g3 = t5[THEN conjunct2]
  from a1 a2 t1' b1 b2 t2 c2 t3' d1 g1 g2 g3 show ?thesis
    by (intro conjI)
qed

subsection \<open>Publisher: where the copies land\<close>

text \<open>
  C2 does not hold of the code. The locator returns paths relative to the source working
  tree, and by the time of the copy the process has changed into the preview working tree, so
  \<^verbatim>\<open>path.relative(tempDir, file)\<close> and \<^verbatim>\<open>copyFileSync(file, ...)\<close> resolve the artifact
  there. For the artifact \<^verbatim>\<open>dist/index.html\<close> of pull request 42 of \<^verbatim>\<open>docs-site\<close> the one
  copy of the run reads \<^verbatim>\<open>dist/index.html\<close> of the preview working tree and writes
  \<^verbatim>\<open>docs-site/preview-repo-1000/dist/index.html\<close>; nothing is placed at
  \<^verbatim>\<open>docs-site/42/dist/index.html\<close>.
\<close>

theorem copy_misses_preview_path:
  "fst (run ex_cfg ex_env (ex_event ''opened'' ''docs-site'' ex_head) (ex_sys [] ex_built)
          ''/'' 0) = 0
   \<and> filter is_copy
        (trace (snd (run ex_cfg ex_env (ex_event ''opened'' ''docs-site'' ex_head)
                       (ex_sys [] ex_built) ''/'' 0)))
       = [CopyFile ''/tmp/preview-repo-1000/dist/index.html''
            ''/tmp/preview-repo-1000/docs-site/preview-repo-1000/dist/index.html'' True]"
  by (simp add: ex_generation_run)

subsection \<open>Nothing to commit\<close>

text \<open>
  C3 does not hold of the code. When the content is what is already published,
  \<^verbatim>\<open>git commit\<close> prints \<^verbatim>\<open>nothing to commit\<close> on its standard output and ends with
  status 1. The output goes to the streams of the process, so the message of the error that
  \<^verbatim>\<open>execSync\<close> throws is \<^verbatim>\<open>Command failed: \<close> and the command line; the test
  \<^verbatim>\<open>e.message.includes('nothing to commit')\<close> of the inner \<^verbatim>\<open>catch\<close> fails, the error is
  thrown again, and the outer \<^verbatim>\<open>catch\<close> ends the process with exit code 1. In the two runs
  below, a generation and a cleanup for pull request 42 of \<^verbatim>\<open>docs-site\<close> whose commit finds
  nothing to commit, the exit code is 1, the line \<^verbatim>\<open>No changes to commit.\<close> is never logged,
  the last effect is the error log of the flow, and the scratch directories stay.
\<close>

lemma failed_commit_is_thrown_again:
  assumes "execSync sys (cwd s) cmd (world s) = (Failed, w')"
    and "\<not> str_includes (''Command failed: '' @ cmd) ''nothing to commit''"
  shows "tolerate_nothing_to_commit (seq (exec sys GitCommit cmd) k) s
           = (Thrown (''Command failed: '' @ cmd),
              s\<lparr>world := w',
                trace := trace s @ [Exec GitCommit cmd (Some (''Command failed: '' @ cmd))]\<rparr>)"
  using assms
  by (simp add: tolerate_nothing_to_commit_def try_catch_def seq_def bind_def exec_def
      error_message_def throw_def)

theorem unchanged_content_exits_1:
  "\<not> str_includes
       (''Command failed: '' @ ''git commit -m \"Update preview for docs-site#42 (abc1234)\"'')
       ''nothing to commit''
   \<and> \<not> str_includes
       (''Command failed: '' @ ''git commit -m \"Remove preview for docs-site#42\"'')
       ''nothing to commit''
   \<and> fst (run ex_cfg ex_env (ex_event ''opened'' ''docs-site'' ex_head)
          (ex_sys ex_unchanged ex_built) ''/'' 0) = 1
   \<and> Exec GitCommit ''git commit -m \"Update preview for docs-site#42 (abc1234)\"''
        (Some (''Command failed: ''
                @ ''git commit -m \"Update preview for docs-site#42 (abc1234)\"''))
       \<in> set (trace (snd (run ex_cfg ex_env (ex_event ''opened'' ''docs-site'' ex_head)
                            (ex_sys ex_unchanged ex_built) ''/'' 0)))
   \<and> ConsoleLog ''No changes to commit.''
       \<notin> set (trace (snd (run ex_cfg ex_env (ex_event ''opened'' ''docs-site'' ex_head)
                            (ex_sys ex_unchanged ex_built) ''/'' 0)))
   \<and> last (trace (snd (run ex_cfg ex_env (ex_event ''opened'' ''docs-site'' ex_head)
                        (ex_sys ex_unchanged ex_built) ''/'' 0)))
       = ConsoleError (''Error generating preview: Command failed: ''
                        @ ''git commit -m \"Update preview for docs-site#42 (abc1234)\"'')
   \<and> \<not> attempted RemoveScratch
         (trace (snd (run ex_cfg ex_env (ex_event ''opened'' ''docs-site'' ex_head)
                        (ex_sys ex_unchanged ex_built) ''/'' 0)))
   \<and> fst (run ex_cfg ex_env (ex_event ''closed'' ''docs-site'' ex_head)
            (ex_sys ex_unchanged ex_published_tree) ''/'' 0) = 1
   \<and> Exec GitCommit ''git commit -m \"Remove preview for docs-site#42\"''
        (Some (''Command failed: '' @ ''git commit -m \"Remove preview for docs-site#42\"''))
       \<in> set (trace (snd (run ex_cfg ex_env (ex_event ''closed'' ''docs-site'' ex_head)
                            (ex_sys ex_unchanged ex_published_tree) ''/'' 0)))
   \<and> ConsoleLog ''No changes to commit.''
       \<notin> set (trace (snd (run ex_cfg ex_env (ex_event ''closed'' ''docs-site'' ex_head)
                            (ex_sys ex_unchanged ex_published_tree) ''/'' 0)))
   \<and> last (trace (snd (run ex_cfg ex_env (ex_event ''closed'' ''docs-site'' ex_head)
                        (ex_sys ex_unchanged ex_published_tree) ''/'' 0)))
       = ConsoleError (''Error during cleanup: Command failed: ''
                        @ ''git commit -m \"Remove preview for docs-site#42\"'')
   \<and> \<not> attempted RemoveScratch
         (trace (snd (run ex_cfg ex_env (ex_event ''closed'' ''docs-site'' ex_head)
                        (ex_sys ex_unchanged ex_published_tree) ''/'' 0)))"
  by (simp add: ex_unchanged_generation_run ex_unchanged_cleanup_run starts_with_def)

subsection \<open>Artifact locator\<close>

text \<open>
  C4. The locator is first-match-wins. When every candidate before \<open>d\<close> is missing or walks
  to no markup file, and the walk of \<open>d\<close> yields the non-empty list \<open>files\<close>, the loop returns
  exactly \<open>files\<close> and logs where it found them, whatever candidates \<open>post\<close> follow and whatever
  they contain; and so does the locator for the fixed list of directories.
\<close>

theorem first_match_wins:
  assumes "\<forall>c\<in>set pre. yields_nothing sys s c"
    and "stat sys (path_resolve (cwd s) d) (world s) = Some n"
    and "findHtmlFiles d n = Inr files" and "files \<noteq> []"
  shows "locate_loop sys (pre @ d # post) s
           = (Done files, s\<lparr>trace := trace s @ [found_log files d]\<rparr>)
         \<and> (htmlDirs = pre @ d # post \<longrightarrow>
              artifact_locator sys s
                = (Done files, s\<lparr>trace := trace s @ [found_log files d]\<rparr>))"
proof (intro conjI impI)
  show l: "locate_loop sys (pre @ d # post) s
             = (Done files, s\<lparr>trace := trace s @ [found_log files d]\<rparr>)"
    by (rule locate_loop_first_match[OF assms])
  assume h: "htmlDirs = pre @ d # post"
  show "artifact_locator sys s = (Done files, s\<lparr>trace := trace s @ [found_log files d]\<rparr>)"
    unfolding artifact_locator_def h using l assms(4) by (simp add: bind_def ret_def)
qed

theorem first_match_wins_witness:
  "yields_nothing (ex_sys [] ex_tree) \<lparr>world = 0, cwd = ''/w'', trace = []\<rparr> ''dist''
   \<and> htmlDirs = [''dist''] @ ''output'' # [''docs/html'', ''build'', ''html'', ''.'']
   \<and> artifact_locator (ex_sys [] ex_tree) \<lparr>world = 0, cwd = ''/w'', trace = []\<rparr>
       = (Done [''output/a.html'', ''output/sub/b.html'', ''output/c.html''],
          \<lparr>world = 0, cwd = ''/w'', trace = [ConsoleLog ''Found 3 HTML files in output'']\<rparr>)"
proof -
  have a: "\<forall>c\<in>set [''dist'']. yields_nothing (ex_sys [] ex_tree)
             \<lparr>world = 0, cwd = ''/w'', trace = []\<rparr> c"
    using ex_dist by simp
  have h: "htmlDirs = [''dist''] @ ''output'' # [''docs/html'', ''build'', ''html'', ''.'']"
    by (simp add: htmlDirs_def)
  have l: "found_log [''output/a.html'', ''output/sub/b.html'', ''output/c.html''] ''output''
             = ConsoleLog ''Found 3 HTML files in output''"
    by (simp add: found_log_def digit_char_def)
  show ?thesis
    using ex_dist h
      first_match_wins[OF a ex_output ex_walk, of "[''docs/html'', ''build'', ''html'', ''.'']"]
    by (simp add: l)
qed

text \<open>
  C5. When steps 1 and 2 of the generation flow have run and no candidate directory yields a
  markup file, the flow logs the error and exits with code 1 from the state the build left:
  among all the effects of the run there is no clone of the preview repository, no copy, no
  commit and no push.
\<close>

theorem no_artifacts_fails_before_publish:
  assumes "prepare_source sys v s = (Done (tempDir, previewDir), s1)"
    and "\<forall>dir\<in>set htmlDirs. yields_nothing sys s1 dir"
  shows "handlePreviewGeneration sys e v s
           = (Exited 1, s1\<lparr>trace := trace s1 @
                [ConsoleError
                   ''No HTML files found. Build script may not have generated output.'']\<rparr>)
       \<and> exit_code (fst (handlePreviewGeneration sys e v s)) = 1
       \<and> list_all (\<lambda>x. \<not> publish_effect x)
            (new_effects s (snd (handlePreviewGeneration sys e v s)))"
proof -
  let ?err = "ConsoleError ''No HTML files found. Build script may not have generated output.''"
  have l: "artifact_locator sys s1 = (Exited 1, s1\<lparr>trace := trace s1 @ [?err]\<rparr>)"
    unfolding artifact_locator_def
    by (simp add: locate_loop_nothing[OF assms(2)] bind_def seq_def console_error_def emit_def
        process_exit_def)
  have h: "handlePreviewGeneration sys e v s = (Exited 1, s1\<lparr>trace := trace s1 @ [?err]\<rparr>)"
    unfolding handlePreviewGeneration_def try_catch_def bind_def
    by (simp only: assms(1) l prod.case result.case)
  from quietD[OF prepare_source_quiet assms(1)] obtain ext where
    ext: "trace s1 = trace s @ ext" "list_all source_effect ext"
    by blast
  have n: "new_effects s (s1\<lparr>trace := trace s1 @ [?err]\<rparr>) = ext @ [?err]"
    by (rule new_effects_append) (simp add: ext)
  from ext(2) have "list_all (\<lambda>x. \<not> publish_effect x) ext"
    by (auto simp: list_all_iff source_effect_not_publish)
  then show ?thesis
    unfolding h by (simp add: exit_code_def n)
qed

theorem no_artifacts_fails_before_publish_witness:
  "fst (prepare_source (ex_sys [] Map.empty) ex_vars ex_start)
     = Done (''/tmp/preview-1000'', ''/tmp/preview-repo-1000'')
   \<and> list_all
         (yields_nothing (ex_sys [] Map.empty)
            (snd (prepare_source (ex_sys [] Map.empty) ex_vars ex_start)))
         htmlDirs
   \<and> exit_code (fst (handlePreviewGeneration (ex_sys [] Map.empty) ex_env ex_vars ex_start)) = 1
   \<and> list_all (\<lambda>x. \<not> publish_effect x)
        (new_effects ex_start
           (snd (handlePreviewGeneration (ex_sys [] Map.empty) ex_env ex_vars ex_start)))"
proof -
  let ?p = "prepare_source (ex_sys [] Map.empty) ex_vars ex_start"
  have a: "?p = (Done (''/tmp/preview-1000'', ''/tmp/preview-repo-1000''), snd ?p)"
    by (simp add: ex_prepare_source)
  have b: "\<forall>dir\<in>set htmlDirs. yields_nothing (ex_sys [] Map.empty) (snd ?p) dir"
    by (simp add: yields_nothing_def ex_sys_def)
  have f: "fst ?p = Done (''/tmp/preview-1000'', ''/tmp/preview-repo-1000'')"
    by (simp add: ex_prepare_source)
  have b': "list_all (yields_nothing (ex_sys [] Map.empty) (snd ?p)) htmlDirs"
    using b by (simp add: list_all_iff)
  note t = no_artifacts_fails_before_publish[OF a b, of ex_env]
  from f b' t[THEN conjunct2] show ?thesis
    by blast
qed

subsection \<open>Event intake\<close>

text \<open>
  C7. An event payload that lacks \<^verbatim>\<open>action\<close>, \<^verbatim>\<open>repository\<close> or \<^verbatim>\<open>pull_request\<close> ends
  the process with exit code 1 after one line on the error stream: the message of the intake
  (for the payload \<^verbatim>\<open>null\<close>, the uncaught TypeError of the destructuring). Nothing else
  happens: the world and the working directory are as before and the trace holds no command,
  no clone, no commit and no push.
\<close>

theorem malformed_event_fails_without_effects:
  assumes "own_prop ev ''action'' = None \<or> own_prop ev ''repository'' = None
           \<or> own_prop ev ''pull_request'' = None"
  shows "run cfg e ev sys dir w =
           (1, \<lparr> world = w, cwd = dir,
                 trace = [if ev = JNull then Uncaught (type_error ''action'')
                          else ConsoleError ''Missing required event payload fields''] \<rparr>)"
  using assms by (auto simp: run_def main_def prog_defs exit_code_def Let_def)

theorem malformed_event_fails_without_effects_witness:
  "(own_prop (JObj [(''action'', JStr ''opened'')]) ''action'' = None
    \<or> own_prop (JObj [(''action'', JStr ''opened'')]) ''repository'' = None
    \<or> own_prop (JObj [(''action'', JStr ''opened'')]) ''pull_request'' = None)
   \<and> run ex_cfg ex_env (JObj [(''action'', JStr ''opened'')]) (ex_sys [] Map.empty) ''/'' 0 =
       (1, \<lparr> world = 0, cwd = ''/'',
             trace = [ConsoleError ''Missing required event payload fields''] \<rparr>)"
  using malformed_event_fails_without_effects
    [of "JObj [(''action'', JStr ''opened'')]" ex_cfg ex_env "ex_sys [] Map.empty" "''/''" 0]
  by simp

subsection \<open>Repository filter\<close>

text \<open>
  C6. For a valid event whose repository name is not in \<^verbatim>\<open>monitoredRepositories\<close>, the
  process logs one line and exits with code 0. The filter runs before anything touches the
  network or the file system: the world and the working directory are as before, and the log
  line, which names the repository, is the whole trace.
\<close>

theorem unmonitored_repository_is_skipped:
  assumes "valid_event ev"
    and "\<not> array_includes (monitoredRepositories cfg) (event_field ev ''repository'' ''name'')"
  shows "\<exists>name. tpl (event_field ev ''repository'' ''name'') = Inr name
           \<and> run cfg e ev sys dir w =
               (0, \<lparr> world = w, cwd = dir,
                     trace = [ConsoleLog (''Repository '' @ name
                                @ '' is not in monitored list. Skipping.'')] \<rparr>)"
proof -
  from assms(1) have ne: "ev \<noteq> JNull"
    by (auto simp: valid_event_def)
  from assms(1) obtain r p where
    r: "own_prop ev ''repository'' = Some r" and p: "own_prop ev ''pull_request'' = Some p"
    by (cases "own_prop ev ''repository''"; cases "own_prop ev ''pull_request''")
       (auto simp: valid_event_def)
  from assms(1) r p have rd: "readable (own_prop p ''head'')" "readable (own_prop r ''owner'')"
    and tr: "truthy (Some r)" "truthy (Some p)" "truthy (own_prop ev ''action'')"
    and ht: "has_text (own_prop r ''name'')" "has_text (own_prop p ''number'')"
    by (auto simp: valid_event_def event_field_def)
  from has_text_tpl[OF ht(1)] obtain name where name: "tpl (own_prop r ''name'') = Inr name" ..
  from has_text_tpl[OF ht(2)] obtain number where
    number: "tpl (own_prop p ''number'') = Inr number" ..
  have "run cfg e ev sys dir w =
               (0, \<lparr> world = w, cwd = dir,
                     trace = [ConsoleLog (''Repository '' @ name
                                @ '' is not in monitored list. Skipping.'')] \<rparr>)"
    using assms(2) ne tr rd
    by (simp add: run_def main_def prog_defs exit_code_def Let_def r p get_prop_truthy
        get_prop_readable event_field_def name number)
  with name show ?thesis
    by (simp add: event_field_def r)
qed

theorem unmonitored_repository_is_skipped_witness:
  "valid_event (ex_event ''opened'' ''random-repo'' ex_head)
   \<and> \<not> array_includes (monitoredRepositories ex_cfg)
         (event_field (ex_event ''opened'' ''random-repo'' ex_head) ''repository'' ''name'')
   \<and> run ex_cfg ex_env (ex_event ''opened'' ''random-repo'' ex_head) (ex_sys [] Map.empty)
         ''/'' 0 =
       (0, \<lparr> world = 0, cwd = ''/'',
             trace = [ConsoleLog
                        ''Repository random-repo is not in monitored list. Skipping.''] \<rparr>)"
proof -
  have v: "valid_event (ex_event ''opened'' ''random-repo'' ex_head)"
    by (simp add: valid_event_def ex_event_def ex_head_def event_field_def readable_def
        has_text_def tpl_def)
  have n: "\<not> array_includes (monitoredRepositories ex_cfg)
             (event_field (ex_event ''opened'' ''random-repo'' ex_head) ''repository'' ''name'')"
    by (simp add: ex_cfg_def ex_event_def event_field_def array_includes_def)
  have f: "tpl (event_field (ex_event ''opened'' ''random-repo'' ex_head) ''repository'' ''name'')
             = Inr ''random-repo''"
    by (simp add: ex_event_def event_field_def tpl_def)
  from unmonitored_repository_is_skipped [OF v n, of ex_env "ex_sys [] Map.empty" "''/''" 0]
  have "run ex_cfg ex_env (ex_event ''opened'' ''random-repo'' ex_head) (ex_sys [] Map.empty)
         ''/'' 0 =
       (0, \<lparr> world = 0, cwd = ''/'',
             trace = [ConsoleLog
                        ''Repository random-repo is not in monitored list. Skipping.''] \<rparr>)"
    unfolding f by auto
  with v n show ?thesis
    by blast
qed

text \<open>
  An event that passes the intake but whose repository name cannot be embedded in a template
  literal is not valid: the conversion at line 33 throws before the filter runs.
\<close>

lemma ex_name_without_text:
  "run ex_cfg ex_env
     (JObj [(''action'', JStr ''opened''),
            (''repository'', JObj [(''name'', JObj [(''toString'', JNum ''1'')]),
                                  (''full_name'', JStr ''acme/x''),
                                  (''owner'', JObj [(''login'', JStr ''acme'')])]),
            (''pull_request'', JObj [(''number'', JNum ''42''), (''head'', ex_head)])])
     (ex_sys [] Map.empty) ''/'' 0
   = (1, \<lparr> world = 0, cwd = ''/'', trace = [Uncaught cannot_convert] \<rparr>)"
  by (simp add: run_def main_def prog_defs exit_code_def ex_head_def tpl_def)

subsection \<open>Reading the head commit\<close>

text \<open>
  C10, as the claim states it, fails: an event whose \<^verbatim>\<open>pull_request.head\<close> is an object
  without \<^verbatim>\<open>sha\<close> throws nothing at line 28 (\<^verbatim>\<open>commitSha\<close> is \<^verbatim>\<open>undefined\<close>), and for an
  unmonitored repository the process exits with code 0.
\<close>

theorem head_without_sha_counterexample:
  "truthy (own_prop (ex_event ''closed'' ''random-repo'' (JObj [])) ''action'')
   \<and> truthy (own_prop (ex_event ''closed'' ''random-repo'' (JObj [])) ''repository'')
   \<and> truthy (own_prop (ex_event ''closed'' ''random-repo'' (JObj [])) ''pull_request'')
   \<and> event_field (ex_event ''closed'' ''random-repo'' (JObj [])) ''pull_request'' ''head''
       = Some (JObj [])
   \<and> own_prop (JObj []) ''sha'' = None
   \<and> fst (run ex_cfg ex_env (ex_event ''closed'' ''random-repo'' (JObj []))
            (ex_sys [] Map.empty) ''/'' 0) = 0"
  by (simp add: ex_event_def event_field_def run_def main_def prog_defs exit_code_def
      ex_cfg_def array_includes_def tpl_def)

text \<open>
  C10, amended. When \<^verbatim>\<open>action\<close>, \<^verbatim>\<open>repository\<close> and \<^verbatim>\<open>pull_request\<close> pass the intake
  but \<^verbatim>\<open>pull_request.head\<close> is missing (or \<^verbatim>\<open>null\<close>), reading \<^verbatim>\<open>head.sha\<close> throws
  before the repository filter and the router run: the process ends with code 1, the uncaught
  TypeError is the whole trace, and nothing else has happened. This holds for every action and
  every configuration, so also for closed and merged events and for unmonitored repositories.
\<close>

theorem missing_head_throws_before_filter:
  assumes "truthy (own_prop ev ''action'')"
    and "truthy (own_prop ev ''repository'')"
    and "truthy (own_prop ev ''pull_request'')"
    and "\<not> readable (event_field ev ''pull_request'' ''head'')"
  shows "run cfg e ev sys dir w =
           (1, \<lparr> world = w, cwd = dir, trace = [Uncaught (type_error ''sha'')] \<rparr>)"
proof -
  from assms have ne: "ev \<noteq> JNull"
    by auto
  from assms obtain r p where
    r: "own_prop ev ''repository'' = Some r" and p: "own_prop ev ''pull_request'' = Some p"
    by (cases "own_prop ev ''repository''"; cases "own_prop ev ''pull_request''") auto
  from assms(4) p have "get_prop (own_prop p ''head'') ''sha'' = Inl (type_error ''sha'')"
    by (cases "(own_prop p ''head'', ''sha'')" rule: get_prop.cases)
       (auto simp: readable_def event_field_def)
  then show ?thesis
    using assms(1-3) ne
    by (simp add: run_def main_def prog_defs exit_code_def Let_def r p get_prop_truthy)
qed

theorem missing_head_throws_before_filter_witness:
  "truthy (own_prop (JObj [(''action'', JStr ''closed''),
                           (''repository'', JObj [(''name'', JStr ''random-repo'')]),
                           (''pull_request'', JObj [(''number'', JNum ''42'')])]) ''action'')
   \<and> \<not> readable (event_field (JObj [(''action'', JStr ''closed''),
                           (''repository'', JObj [(''name'', JStr ''random-repo'')]),
                           (''pull_request'', JObj [(''number'', JNum ''42'')])])
                    ''pull_request'' ''head'')
   \<and> run ex_cfg ex_env (JObj [(''action'', JStr ''closed''),
                           (''repository'', JObj [(''name'', JStr ''random-repo'')]),
                           (''pull_request'', JObj [(''number'', JNum ''42'')])])
         (ex_sys [] Map.empty) ''/'' 0 =
       (1, \<lparr> world = 0, cwd = ''/'', trace = [Uncaught (type_error ''sha'')] \<rparr>)"
  using missing_head_throws_before_filter
    [of "JObj [(''action'', JStr ''closed''),
               (''repository'', JObj [(''name'', JStr ''random-repo'')]),
               (''pull_request'', JObj [(''number'', JNum ''42'')])]"
        ex_cfg ex_env "ex_sys [] Map.empty" "''/''" 0]
  by (simp add: event_field_def readable_def)

subsection \<open>Remover\<close>

text \<open>
  C8. When the preview repository has been cloned and the preview path does not exist in it,
  the remover only logs: its state is otherwise unchanged. With the scratch directory
  removed at the end, the handler completes, so the exit code is 0, and the effects of the
  whole flow are the clone (its log line and its command, the texts of the two template
  literals), the change of directory, the log line and the removal of the scratch directory:
  no delete of the preview path, no commit and no push.
\<close>

theorem missing_preview_path_is_noop:
  assumes "cleanup_clone sys e v s = (Done previewDir, s1)"
    and "\<not> existsSync sys (path_join [previewDir, previewPath v]) s1"
    and "chdir sys ''/'' (world s1) = None"
    and "execSync sys ''/'' (''rm -rf '' @ previewDir) (world s1) = (Succeeded, w')"
  shows "remover sys v previewDir s1
           = (Done (), s1\<lparr>trace := trace s1 @
                [ConsoleLog (''Preview folder '' @ previewPath v
                   @ '' does not exist. Nothing to clean up.'')]\<rparr>)
       \<and> exit_code (fst (handleCleanup sys e v s)) = 0
       \<and> (\<exists>msg cmd.
            clone_preview_log v = Inr msg \<and> clone_preview_cmd e v previewDir = Inr cmd
            \<and> new_effects s (snd (handleCleanup sys e v s)) =
                [ConsoleLog msg,
                 Exec ClonePreview cmd None,
                 Chdir (path_resolve (cwd s) previewDir) True,
                 ConsoleLog (''Preview folder '' @ previewPath v
                   @ '' does not exist. Nothing to clean up.''),
                 Chdir ''/'' True,
                 Exec RemoveScratch (''rm -rf '' @ previewDir) None])"
proof -
  let ?log = "ConsoleLog (''Preview folder '' @ previewPath v
                   @ '' does not exist. Nothing to clean up.'')"
  let ?s2 = "s1\<lparr>trace := trace s1 @ [?log]\<rparr>"
  let ?s3 = "?s2\<lparr>cwd := ''/'', trace := trace ?s2 @ [Chdir ''/'' True]\<rparr>"
  let ?s4 = "s1\<lparr>world := w', cwd := ''/'',
               trace := trace s1 @
                 [?log, Chdir ''/'' True, Exec RemoveScratch (''rm -rf '' @ previewDir) None]\<rparr>"
  have r: "remover sys v previewDir s1 = (Done (), ?s2)"
    using assms(2) by (simp add: remover_def Let_def console_log_def emit_def)
  have c: "process_chdir sys ''/'' ?s2 = (Done (), ?s3)"
    using assms(3) by (simp add: process_chdir_def resolve_root Let_def)
  have x: "exec sys RemoveScratch (''rm -rf '' @ previewDir) ?s3 = (Done (), ?s4)"
    unfolding exec_def using assms(4) by (simp add: error_message_def)
  have h: "handleCleanup sys e v s = (Done (), ?s4)"
    unfolding handleCleanup_def try_catch_def bind_def seq_def remove_scratch_def
    by (simp only: assms(1) r c x prod.case result.case)
  from cleanup_clone_done[OF assms(1)] obtain msg cmd where
    m: "clone_preview_log v = Inr msg" "clone_preview_cmd e v previewDir = Inr cmd"
    and t: "trace s1 = trace s @
               [ConsoleLog msg, Exec ClonePreview cmd None,
                Chdir (path_resolve (cwd s) previewDir) True]"
    by blast
  have n: "new_effects s ?s4 =
                [ConsoleLog msg,
                 Exec ClonePreview cmd None,
                 Chdir (path_resolve (cwd s) previewDir) True,
                 ?log,
                 Chdir ''/'' True,
                 Exec RemoveScratch (''rm -rf '' @ previewDir) None]"
    by (rule new_effects_append) (simp add: t)
  from m n show ?thesis
    unfolding h r by (simp add: exit_code_def)
qed

theorem missing_preview_path_is_noop_witness:
  "fst (cleanup_clone (ex_sys [] Map.empty) ex_env ex_vars ex_start)
     = Done ''/tmp/preview-repo-cleanup-1000''
   \<and> \<not> existsSync (ex_sys [] Map.empty)
         (path_join [''/tmp/preview-repo-cleanup-1000'', previewPath ex_vars])
         (snd (cleanup_clone (ex_sys [] Map.empty) ex_env ex_vars ex_start))
   \<and> chdir (ex_sys [] Map.empty) ''/''
        (world (snd (cleanup_clone (ex_sys [] Map.empty) ex_env ex_vars ex_start))) = None
   \<and> execSync (ex_sys [] Map.empty) ''/'' (''rm -rf '' @ ''/tmp/preview-repo-cleanup-1000'')
        (world (snd (cleanup_clone (ex_sys [] Map.empty) ex_env ex_vars ex_start)))
       = (Succeeded, 2)
   \<and> exit_code (fst (handleCleanup (ex_sys [] Map.empty) ex_env ex_vars ex_start)) = 0"
proof -
  let ?c = "cleanup_clone (ex_sys [] Map.empty) ex_env ex_vars ex_start"
  have a: "?c = (Done ''/tmp/preview-repo-cleanup-1000'', snd ?c)"
    by (simp add: ex_cleanup_clone)
  have b: "\<not> existsSync (ex_sys [] Map.empty)
             (path_join [''/tmp/preview-repo-cleanup-1000'', previewPath ex_vars]) (snd ?c)"
    by (simp add: existsSync_def ex_sys_def)
  have c: "chdir (ex_sys [] Map.empty) ''/'' (world (snd ?c)) = None"
    by (simp add: ex_sys_def)
  have d: "execSync (ex_sys [] Map.empty) ''/'' (''rm -rf '' @ ''/tmp/preview-repo-cleanup-1000'')
             (world (snd ?c)) = (Succeeded, 2)"
    by (simp add: ex_cleanup_clone) (simp add: ex_sys_def)
  have f: "fst ?c = Done ''/tmp/preview-repo-cleanup-1000''"
    by (simp add: ex_cleanup_clone)
  note t = missing_preview_path_is_noop[OF a b c d]
  from t[THEN conjunct2, THEN conjunct1] b c d f show ?thesis
    by blast
qed

subsection \<open>Scratch directories\<close>

text \<open>
  C9, as the claim states it, fails on the failure path: the \<^verbatim>\<open>catch\<close> of a handler logs and
  exits, and removes nothing. In the run below the source repository is cloned into its
  scratch directory, the checkout fails, and the process exits with code 1 without any
  attempt to remove the directory.
\<close>

theorem failure_leaves_scratch_counterexample:
  "fst (run ex_cfg ex_env (ex_event ''opened'' ''docs-site'' ex_head)
          (ex_sys ex_bad_checkout Map.empty) ''/'' 0) = 1
   \<and> succeeded CloneSource
        (trace (snd (run ex_cfg ex_env (ex_event ''opened'' ''docs-site'' ex_head)
                       (ex_sys ex_bad_checkout Map.empty) ''/'' 0)))
   \<and> \<not> attempted RemoveScratch
        (trace (snd (run ex_cfg ex_env (ex_event ''opened'' ''docs-site'' ex_head)
                       (ex_sys ex_bad_checkout Map.empty) ''/'' 0)))"
  by (simp add: ex_checkout_failure_run)

text \<open>
  C9, amended. The scratch directories are removed on the success path only. Each of the two
  handlers either completes or exits with code 1. When the generation completes, it has
  cloned the source repository into \<open>tempDir\<close> and the preview repository into \<open>previewDir\<close>
  (with the command lines that the two template literals evaluate to), and its last effect
  is the successful \<^verbatim>\<open>rm -rf\<close> of these two directories; when the cleanup completes, its
  last effect is the successful \<^verbatim>\<open>rm -rf\<close> of the directory it cloned the preview
  repository into. When a handler exits with code 1, no removal of the scratch directories
  has succeeded among the effects of the flow.
\<close>

theorem scratch_removed_on_success_only:
  "(handlePreviewGeneration sys e v s = (r, s') \<longrightarrow>
      (r = Done () \<or> r = Exited 1)
      \<and> (r = Done () \<longrightarrow>
           (\<exists>tempDir previewDir a b.
              clone_source_cmd v tempDir = Inr a
              \<and> Exec CloneSource a None \<in> set (new_effects s s')
              \<and> clone_preview_cmd e v previewDir = Inr b
              \<and> Exec ClonePreview b None \<in> set (new_effects s s')
              \<and> last (trace s')
                   = Exec RemoveScratch (''rm -rf '' @ tempDir @ '' '' @ previewDir) None))
      \<and> (r = Exited 1 \<longrightarrow> \<not> succeeded RemoveScratch (new_effects s s')))
   \<and> (handleCleanup sys e v s = (q, t') \<longrightarrow>
      (q = Done () \<or> q = Exited 1)
      \<and> (q = Done () \<longrightarrow>
           (\<exists>previewDir b.
              clone_preview_cmd e v previewDir = Inr b
              \<and> Exec ClonePreview b None \<in> set (new_effects s t')
              \<and> last (trace t') = Exec RemoveScratch (''rm -rf '' @ previewDir) None))
      \<and> (q = Exited 1 \<longrightarrow> \<not> succeeded RemoveScratch (new_effects s t')))"
proof (intro conjI impI)
  assume g: "handlePreviewGeneration sys e v s = (r, s')"
  from specD[OF generation_spec g] obtain ext where
    ext: "trace s' = trace s @ ext" "ended ext r"
    by blast
  note f = ended_facts[OF ext]
  from f show "r = Done () \<or> r = Exited 1"
    by blast
  {
    assume "r = Exited 1"
    with f show "\<not> succeeded RemoveScratch (new_effects s s')"
      by blast
  }
  assume d: "r = Done ()"
  from generation_Done[OF g[unfolded d]] show "\<exists>tempDir previewDir a b.
      clone_source_cmd v tempDir = Inr a
      \<and> Exec CloneSource a None \<in> set (new_effects s s')
      \<and> clone_preview_cmd e v previewDir = Inr b
      \<and> Exec ClonePreview b None \<in> set (new_effects s s')
      \<and> last (trace s') = Exec RemoveScratch (''rm -rf '' @ tempDir @ '' '' @ previewDir) None" .
next
  assume c: "handleCleanup sys e v s = (q, t')"
  from specD[OF cleanup_spec c] obtain ext where
    ext: "trace t' = trace s @ ext" "ended ext q"
    by blast
  note f = ended_facts[OF ext]
  from f show "q = Done () \<or> q = Exited 1"
    by blast
  {
    assume "q = Exited 1"
    with f show "\<not> succeeded RemoveScratch (new_effects s t')"
      by blast
  }
  assume d: "q = Done ()"
  from cleanup_Done[OF c[unfolded d]] show "\<exists>previewDir b.
      clone_preview_cmd e v previewDir = Inr b
      \<and> Exec ClonePreview b None \<in> set (new_effects s t')
      \<and> last (trace t') = Exec RemoveScratch (''rm -rf '' @ previewDir) None" .
qed

theorem scratch_removed_on_success_only_witness:
  "fst (handlePreviewGeneration (ex_sys [] Map.empty) ex_env ex_vars ex_start) = Exited 1
   \<and> \<not> succeeded RemoveScratch
         (new_effects ex_start
            (snd (handlePreviewGeneration (ex_sys [] Map.empty) ex_env ex_vars ex_start)))
   \<and> fst (handleCleanup (ex_sys [] Map.empty) ex_env ex_vars ex_start) = Done ()
   \<and> last (trace (snd (handleCleanup (ex_sys [] Map.empty) ex_env ex_vars ex_start)))
       = Exec RemoveScratch ''rm -rf /tmp/preview-repo-cleanup-1000'' None"
proof -
  let ?g = "handlePreviewGeneration (ex_sys [] Map.empty) ex_env ex_vars ex_start"
  let ?h = "handleCleanup (ex_sys [] Map.empty) ex_env ex_vars ex_start"
  have a: "?g = (Exited 1, snd ?g)"
    by (simp add: ex_generation_no_artifacts)
  have b: "?h = (Done (), snd ?h)"
    by (simp add: ex_cleanup_noop)
  have fa: "fst ?g = Exited 1"
    by (simp add: ex_generation_no_artifacts)
  have fb: "fst ?h = Done ()"
    by (simp add: ex_cleanup_noop)
  have l: "last (trace (snd ?h))
             = Exec RemoveScratch ''rm -rf /tmp/preview-repo-cleanup-1000'' None"
    by (simp add: ex_cleanup_noop)
  note t = scratch_removed_on_success_only
    [of "ex_sys [] Map.empty" ex_env ex_vars ex_start "Exited 1" "snd ?g" "Done ()" "snd ?h"]
  from t a have n: "\<not> succeeded RemoveScratch (new_effects ex_start (snd ?g))"
    by blast
  from fa n fb l show ?thesis
    by blast
qed

end
